theory Spec2Isabelle
  imports Complex_Main "HOL-Library.Word"
begin

unbundle bit_operations_syntax

section \<open>Strings (md\_str.h helpers used by the loader)\<close>

type_synonym str_t = string

text \<open>
  The string helpers live in mdlib's \<^verbatim>\<open>core/md_str.h\<close>, which the loader includes.
  \<^verbatim>\<open>str_eq\<close> compares length and bytes; \<^verbatim>\<open>str_eq_ignore_case\<close> compares
  after folding the ASCII letters A-Z to lower case.
\<close>

definition to_lower :: "char \<Rightarrow> char" where
  "to_lower c =
     (let n = (of_char c :: nat) in if 65 \<le> n \<and> n \<le> 90 then char_of (n + 32) else c)"

definition str_eq :: "str_t \<Rightarrow> str_t \<Rightarrow> bool" where
  "str_eq a b = (a = b)"

definition str_eq_ignore_case :: "str_t \<Rightarrow> str_t \<Rightarrow> bool" where
  "str_eq_ignore_case a b = (map to_lower a = map to_lower b)"

text \<open>
  \<^verbatim>\<open>extract_tokens_delim(tok, cap, &s, delim)\<close> cuts \<^verbatim>\<open>s\<close> at every
  \<^verbatim>\<open>delim\<close> and stores at most \<^verbatim>\<open>cap\<close> tokens.
\<close>

fun tokens_delim :: "char \<Rightarrow> str_t \<Rightarrow> str_t list" where
  "tokens_delim d [] = [[]]"
| "tokens_delim d (c # cs) =
     (if c = d then [] # tokens_delim d cs
      else (case tokens_delim d cs of [] \<Rightarrow> [[c]] | t # ts \<Rightarrow> (c # t) # ts))"

definition extract_tokens_delim :: "nat \<Rightarrow> str_t \<Rightarrow> char \<Rightarrow> str_t list" where
  "extract_tokens_delim cap s d = take cap (tokens_delim d s)"

text \<open>
  \<^verbatim>\<open>extract_ext(&ext, path)\<close> yields the text after the last dot of the path and
  reports whether there is one. The loader only uses its result.
\<close>

fun after_last_dot :: "str_t \<Rightarrow> str_t option" where
  "after_last_dot [] = None"
| "after_last_dot (c # cs) =
     (case after_last_dot cs of
        Some e \<Rightarrow> Some e
      | None \<Rightarrow> (if c = CHR ''.'' then Some cs else None))"

definition extract_ext :: "str_t \<Rightarrow> str_t option" where
  "extract_ext path = after_last_dot path"

section \<open>Format registry\<close>

datatype mol_loader_t =
    MOL_LOADER_UNKNOWN
  | MOL_LOADER_PDB
  | MOL_LOADER_GRO
  | MOL_LOADER_XYZ
  | MOL_LOADER_CIF
  | MOL_LOADER_LAMMPS

datatype traj_loader_t =
    TRAJ_LOADER_UNKNOWN
  | TRAJ_LOADER_PDB
  | TRAJ_LOADER_XTC
  | TRAJ_LOADER_TRR
  | TRAJ_LOADER_XYZ

text \<open>
  The backend interface objects returned by \<^verbatim>\<open>md_pdb_molecule_api()\<close> and its siblings
  are static objects of mdlib; a pointer to one is modelled by its name, a null pointer by
  \<open>None\<close>. \<open>other_molecule_loader\<close> and \<open>other_trajectory_loader\<close> stand for
  interface objects a caller brings along that are not in the table.
\<close>

datatype md_molecule_loader_i =
    md_pdb_molecule_api
  | md_gro_molecule_api
  | md_xyz_molecule_api
  | md_mmcif_molecule_api
  | md_lammps_molecule_api
  | other_molecule_loader nat

datatype md_trajectory_loader_i =
    md_pdb_trajectory_loader
  | md_xtc_trajectory_loader
  | md_trr_trajectory_loader
  | md_xyz_trajectory_loader
  | other_trajectory_loader nat

fun mol_loader_ext :: "mol_loader_t \<Rightarrow> str_t" where
  "mol_loader_ext MOL_LOADER_UNKNOWN = []"
| "mol_loader_ext MOL_LOADER_PDB = ''pdb''"
| "mol_loader_ext MOL_LOADER_GRO = ''gro''"
| "mol_loader_ext MOL_LOADER_XYZ = ''xyz;xmol;arc''"
| "mol_loader_ext MOL_LOADER_CIF = ''cif''"
| "mol_loader_ext MOL_LOADER_LAMMPS = ''data''"

fun mol_loader_api :: "mol_loader_t \<Rightarrow> md_molecule_loader_i option" where
  "mol_loader_api MOL_LOADER_UNKNOWN = None"
| "mol_loader_api MOL_LOADER_PDB = Some md_pdb_molecule_api"
| "mol_loader_api MOL_LOADER_GRO = Some md_gro_molecule_api"
| "mol_loader_api MOL_LOADER_XYZ = Some md_xyz_molecule_api"
| "mol_loader_api MOL_LOADER_CIF = Some md_mmcif_molecule_api"
| "mol_loader_api MOL_LOADER_LAMMPS = Some md_lammps_molecule_api"

fun traj_loader_ext :: "traj_loader_t \<Rightarrow> str_t" where
  "traj_loader_ext TRAJ_LOADER_UNKNOWN = []"
| "traj_loader_ext TRAJ_LOADER_PDB = ''pdb''"
| "traj_loader_ext TRAJ_LOADER_XTC = ''xtc''"
| "traj_loader_ext TRAJ_LOADER_TRR = ''trr''"
| "traj_loader_ext TRAJ_LOADER_XYZ = ''xyz;xmol;arc''"

fun traj_loader_api :: "traj_loader_t \<Rightarrow> md_trajectory_loader_i option" where
  "traj_loader_api TRAJ_LOADER_UNKNOWN = None"
| "traj_loader_api TRAJ_LOADER_PDB = Some md_pdb_trajectory_loader"
| "traj_loader_api TRAJ_LOADER_XTC = Some md_xtc_trajectory_loader"
| "traj_loader_api TRAJ_LOADER_TRR = Some md_trr_trajectory_loader"
| "traj_loader_api TRAJ_LOADER_XYZ = Some md_xyz_trajectory_loader"

subsection \<open>The table of UI-visible entries\<close>

definition NUM_ENTRIES :: nat where
  "NUM_ENTRIES = 9"

definition FLAG_NONE :: "32 word" where
  "FLAG_NONE = 0"

definition FLAG_REQUIRES_DIALOGUE :: "32 word" where
  "FLAG_REQUIRES_DIALOGUE = push_bit 0 1"

definition table_ext :: "str_t list" where
  "table_ext =
     [''pdb'', ''gro'', ''xtc'', ''trr'', ''xyz'', ''xmol'', ''arc'', ''cif'', ''data'']"

definition table_mol_loader :: "md_molecule_loader_i option list" where
  "table_mol_loader =
     [Some md_pdb_molecule_api, Some md_gro_molecule_api, None, None,
      Some md_xyz_molecule_api, Some md_xyz_molecule_api, Some md_xyz_molecule_api,
      Some md_mmcif_molecule_api, Some md_lammps_molecule_api]"

definition table_traj_loader :: "md_trajectory_loader_i option list" where
  "table_traj_loader =
     [Some md_pdb_trajectory_loader, None, Some md_xtc_trajectory_loader,
      Some md_trr_trajectory_loader, Some md_xyz_trajectory_loader,
      Some md_xyz_trajectory_loader, Some md_xyz_trajectory_loader, None, None]"

text \<open>
  The initialiser of \<^verbatim>\<open>table\<close> gives four of the five members; the member
  \<^verbatim>\<open>flags\<close> has no initialiser and is therefore zero-initialised.
\<close>

definition table_flags :: "32 word list" where
  "table_flags = replicate NUM_ENTRIES 0"

subsection \<open>Lookup by enumerator (used by \<^verbatim>\<open>init_loader_state\<close>)\<close>

text \<open>
  The loops run over the enumerators from 1 and over the tokens of the enumerator's
  extension list; the first enumerator with a matching token is returned.
\<close>

definition mol_loader_from_ext :: "str_t \<Rightarrow> mol_loader_t" where
  "mol_loader_from_ext ext =
     (case find (\<lambda>i. list_ex (\<lambda>tok. str_eq_ignore_case ext tok)
                        (extract_tokens_delim 16 (mol_loader_ext i) CHR '';''))
             [MOL_LOADER_PDB, MOL_LOADER_GRO, MOL_LOADER_XYZ, MOL_LOADER_CIF, MOL_LOADER_LAMMPS] of
        Some i \<Rightarrow> i
      | None \<Rightarrow> MOL_LOADER_UNKNOWN)"

definition traj_loader_from_ext :: "str_t \<Rightarrow> traj_loader_t" where
  "traj_loader_from_ext ext =
     (case find (\<lambda>i. list_ex (\<lambda>tok. str_eq_ignore_case ext tok)
                        (extract_tokens_delim 16 (traj_loader_ext i) CHR '';''))
             [TRAJ_LOADER_PDB, TRAJ_LOADER_XTC, TRAJ_LOADER_TRR, TRAJ_LOADER_XYZ] of
        Some i \<Rightarrow> i
      | None \<Rightarrow> TRAJ_LOADER_UNKNOWN)"

subsection \<open>Lookup in the table (namespaces \<^verbatim>\<open>load::mol\<close> and \<^verbatim>\<open>load::traj\<close>)\<close>

text \<open>The loop \<^verbatim>\<open>for (i = 0; i < NUM_ENTRIES; ++i)\<close>, counting upwards from \<open>i\<close>.\<close>

function loader_from_ext_loop :: "'a option list \<Rightarrow> str_t \<Rightarrow> nat \<Rightarrow> 'a option" where
  "loader_from_ext_loop loaders ext i =
     (if i < NUM_ENTRIES then
        (if str_eq ext (table_ext ! i) then loaders ! i
         else loader_from_ext_loop loaders ext (Suc i))
      else None)"
  by pat_completeness auto
termination
  by (relation "measure (\<lambda>(loaders, ext, i). NUM_ENTRIES - i)") auto

declare loader_from_ext_loop.simps [simp del]

definition load_mol_loader_from_ext :: "str_t \<Rightarrow> md_molecule_loader_i option" where
  "load_mol_loader_from_ext ext = loader_from_ext_loop table_mol_loader ext 0"

definition load_traj_loader_from_ext :: "str_t \<Rightarrow> md_trajectory_loader_i option" where
  "load_traj_loader_from_ext ext = loader_from_ext_loop table_traj_loader ext 0"

function loader_requires_dialogue_loop :: "md_molecule_loader_i \<Rightarrow> nat \<Rightarrow> bool" where
  "loader_requires_dialogue_loop loader i =
     (if i < NUM_ENTRIES then
        (if table_mol_loader ! i = Some loader
         then (table_flags ! i) AND FLAG_REQUIRES_DIALOGUE \<noteq> 0
         else loader_requires_dialogue_loop loader (Suc i))
      else False)"
  by pat_completeness auto
termination
  by (relation "measure (\<lambda>(loader, i). NUM_ENTRIES - i)") auto

declare loader_requires_dialogue_loop.simps [simp del]

definition load_mol_loader_requires_dialogue :: "md_molecule_loader_i option \<Rightarrow> bool" where
  "load_mol_loader_requires_dialogue loader =
     (case loader of
        Some l \<Rightarrow> loader_requires_dialogue_loop l 0
      | None \<Rightarrow> False)"

section \<open>Errors and the allocator\<close>

text \<open>
  \<^verbatim>\<open>ASSERT(e)\<close> is a macro of mdlib that a build either compiles in or expands to
  nothing, and the loader is written for both (the attribute \<^verbatim>\<open>maybe_unused\<close> of
  the parameter \<^verbatim>\<open>data_size\<close>, \<^verbatim>\<open>(void)num_indices\<close>, a \<^verbatim>\<open>return\<close> after
  \<^verbatim>\<open>ASSERT(false)\<close>). Every function with an assertion therefore takes the flag
  \<open>asserts\<close>: with \<open>asserts\<close> a false assertion stops the program, without it the
  function goes on. A stop at an assertion, a trap of an unsigned division by zero and a
  read through a null pointer are results of the model, so a function that can reach one
  returns \<open>error + 'a\<close>.
\<close>

datatype error = AssertionFailure | DivisionByZero | NullPointer

text \<open>
  \<^verbatim>\<open>md_allocator_i\<close>: the blocks handed out and not yet freed, each with its size, and
  the next free address. A pointer is an address, the null pointer is \<open>None\<close>.
\<close>

record md_allocator_i =
  alloc_next :: nat
  alloc_live :: "(nat \<times> nat) list"

definition md_alloc :: "md_allocator_i \<Rightarrow> nat \<Rightarrow> nat \<times> md_allocator_i" where
  "md_alloc a size_bytes =
     (alloc_next a,
      a\<lparr>alloc_next := Suc (alloc_next a),
        alloc_live := (alloc_next a, size_bytes) # alloc_live a\<rparr>)"

definition md_free :: "md_allocator_i \<Rightarrow> nat \<Rightarrow> nat \<Rightarrow> md_allocator_i" where
  "md_free a ptr size_bytes = a\<lparr>alloc_live := remove1 (ptr, size_bytes) (alloc_live a)\<rparr>"

section \<open>Loader state\<close>

definition LoaderStateFlag_None :: "32 word" where
  "LoaderStateFlag_None = 0"

definition LoaderStateFlag_RequiresDialogue :: "32 word" where
  "LoaderStateFlag_RequiresDialogue = push_bit 0 1"

datatype md_lammps_atom_format_t =
    MD_LAMMPS_ATOM_FORMAT_UNKNOWN
  | MD_LAMMPS_ATOM_FORMAT nat

text \<open>
  \<^verbatim>\<open>load::LoaderState\<close>. The argument blob holds the LAMMPS loader argument made from
  the sniffed atom format; \<open>data_blob\<close> is the content of the block at \<open>data_ptr\<close>.
\<close>

record LoaderState =
  mol_loader :: "md_molecule_loader_i option"
  traj_loader :: "md_trajectory_loader_i option"
  mol_loader_arg :: "nat option"
  flags :: "32 word"
  data_size :: nat
  data_ptr :: "nat option"
  data_blob :: "md_lammps_atom_format_t option"

text \<open>What \<^verbatim>\<open>MEMSET(state, 0, sizeof(LoaderState))\<close> leaves.\<close>

definition LoaderState_zero :: LoaderState where
  "LoaderState_zero =
     \<lparr>mol_loader = None, traj_loader = None, mol_loader_arg = None, flags = 0,
      data_size = 0, data_ptr = None, data_blob = None\<rparr>"

text \<open>
  What the loader reads from outside: the atom format that
  \<^verbatim>\<open>md_lammps_atom_format_from_file\<close> finds in a file, the sizes of
  \<^verbatim>\<open>md_lammps_molecule_loader_arg_t\<close> and \<^verbatim>\<open>md_trajectory_i\<close>, the physical
  memory reported by
  \<^verbatim>\<open>md_os_physical_ram()\<close> and the build constant \<^verbatim>\<open>VIAMD_FRAME_CACHE_SIZE\<close>
  (in megabytes).
\<close>

record platform =
  md_lammps_atom_format_from_file :: "str_t \<Rightarrow> md_lammps_atom_format_t"
  sizeof_lammps_arg :: nat
  sizeof_md_trajectory_i :: nat
  md_os_physical_ram :: nat
  VIAMD_FRAME_CACHE_SIZE :: nat

definition mol_loader_preload_check ::
  "platform \<Rightarrow> LoaderState \<Rightarrow> mol_loader_t \<Rightarrow> str_t \<Rightarrow> md_allocator_i
     \<Rightarrow> LoaderState \<times> md_allocator_i" where
  "mol_loader_preload_check P state loader file_path alloc =
     (case loader of
        MOL_LOADER_LAMMPS \<Rightarrow>
          (let format = md_lammps_atom_format_from_file P file_path in
           if format \<noteq> MD_LAMMPS_ATOM_FORMAT_UNKNOWN then
             (let (ptr, alloc') = md_alloc alloc (sizeof_lammps_arg P) in
              (state\<lparr>data_size := sizeof_lammps_arg P, data_ptr := Some ptr,
                     data_blob := Some format, mol_loader_arg := Some ptr\<rparr>, alloc'))
           else (state\<lparr>flags := flags state OR LoaderStateFlag_RequiresDialogue\<rparr>, alloc))
      | _ \<Rightarrow> (state, alloc))"

definition traj_loader_preload_check ::
  "LoaderState \<Rightarrow> traj_loader_t \<Rightarrow> str_t \<Rightarrow> md_allocator_i
     \<Rightarrow> LoaderState \<times> md_allocator_i" where
  "traj_loader_preload_check state loader file_path alloc = (state, alloc)"

definition init_loader_state ::
  "platform \<Rightarrow> str_t \<Rightarrow> md_allocator_i \<Rightarrow> bool \<times> LoaderState \<times> md_allocator_i" where
  "init_loader_state P file_path alloc =
     (let state = LoaderState_zero in
      case extract_ext file_path of
        None \<Rightarrow> (False, state, alloc)
      | Some ext \<Rightarrow>
          (let mol_l = mol_loader_from_ext ext;
               (state1, alloc1) =
                 (if mol_l \<noteq> MOL_LOADER_UNKNOWN
                  then mol_loader_preload_check P
                         (state\<lparr>mol_loader := mol_loader_api mol_l\<rparr>) mol_l file_path alloc
                  else (state, alloc));
               traj_l = traj_loader_from_ext ext;
               (state2, alloc2) =
                 (if traj_l \<noteq> TRAJ_LOADER_UNKNOWN
                  then traj_loader_preload_check
                         (state1\<lparr>traj_loader := traj_loader_api traj_l\<rparr>) traj_l file_path alloc1
                  else (state1, alloc1))
           in (mol_l \<noteq> MOL_LOADER_UNKNOWN \<or> traj_l \<noteq> TRAJ_LOADER_UNKNOWN, state2, alloc2)))"

definition free_loader_state :: "LoaderState \<Rightarrow> md_allocator_i \<Rightarrow> LoaderState \<times> md_allocator_i" where
  "free_loader_state state alloc =
     (if data_size state \<noteq> 0
      then (state\<lparr>data_size := 0, data_ptr := None, data_blob := None\<rparr>,
            (case data_ptr state of
               Some p \<Rightarrow> md_free alloc p (data_size state)
             | None \<Rightarrow> alloc))
      else (state, alloc))"

section \<open>Frames, molecules and backend trajectories\<close>

text \<open>
  Single-precision values are kept abstract: \<open>'f\<close> is the type of a \<^verbatim>\<open>float\<close>, and
  the arithmetic the loader performs on it is a parameter (\<open>vec_math\<close> below). Equality of
  two \<open>'f\<close> values is equality of the stored bits.
\<close>

type_synonym 'f vec3_t = "'f \<times> 'f \<times> 'f"
type_synonym 'f mat3_t = "'f vec3_t \<times> 'f vec3_t \<times> 'f vec3_t"

record 'f md_unit_cell_t =
  basis :: "'f mat3_t"
  cell_flags :: "32 word"

record 'f md_trajectory_frame_header_t =
  num_atoms :: nat
  index :: int
  timestamp :: 'f
  unit_cell :: "'f md_unit_cell_t"

record 'f md_frame_data_t =
  header :: "'f md_trajectory_frame_header_t"
  frame_x :: "'f list"
  frame_y :: "'f list"
  frame_z :: "'f list"

text \<open>
  \<^verbatim>\<open>md_molecule_t\<close>, the members the loader reads: \<^verbatim>\<open>atom.count\<close>,
  \<^verbatim>\<open>atom.mass\<close>, \<^verbatim>\<open>structures.offsets\<close> and \<^verbatim>\<open>structures.indices\<close>.
\<close>

record 'f md_molecule_t =
  atom_count :: nat
  atom_mass :: "'f list"
  structures_offsets :: "nat list"
  structures_indices :: "int list"

definition md_index_data_count :: "nat list \<Rightarrow> nat" where
  "md_index_data_count offsets = length offsets - 1"

text \<open>
  A backend trajectory (\<^verbatim>\<open>md_trajectory_i\<close> as a format parser provides it):
  \<open>traj_inst\<close> identifies the instance, \<open>traj_fetch_frame_data\<close> gives the raw bytes of
  a frame and \<open>traj_decode_frame_data\<close> the success flag and what the parser writes into
  the header and the three coordinate arrays it is given.
\<close>

record 'f md_trajectory_i =
  traj_inst :: nat
  traj_num_atoms :: nat
  traj_num_frames :: nat
  traj_fetch_frame_data :: "int \<Rightarrow> nat list"
  traj_decode_frame_data :: "nat list \<Rightarrow> bool \<times> 'f md_frame_data_t"

subsection \<open>Vector arithmetic\<close>

text \<open>
  The operations of \<^verbatim>\<open>float\<close> and the geometry helpers of mdlib
  (\<^verbatim>\<open>core/md_vec_math.h\<close>, \<^verbatim>\<open>md_util.h\<close>) that the loader calls. \<open>f_one\<close> is
  \<^verbatim>\<open>1.0f\<close> and \<open>f_half\<close> is \<^verbatim>\<open>0.5f\<close>.
\<close>

record 'f vec_math =
  f_add :: "'f \<Rightarrow> 'f \<Rightarrow> 'f"
  f_sub :: "'f \<Rightarrow> 'f \<Rightarrow> 'f"
  f_mul :: "'f \<Rightarrow> 'f \<Rightarrow> 'f"
  f_neg :: "'f \<Rightarrow> 'f"
  f_one :: 'f
  f_half :: 'f
  mat3_mul_vec3 :: "'f mat3_t \<Rightarrow> 'f vec3_t \<Rightarrow> 'f vec3_t"
  vec3_deperiodize :: "'f vec3_t \<Rightarrow> 'f vec3_t \<Rightarrow> 'f vec3_t \<Rightarrow> 'f vec3_t"
  md_util_compute_com_ortho ::
    "'f list \<Rightarrow> 'f list \<Rightarrow> 'f list \<Rightarrow> 'f list \<Rightarrow> int list \<Rightarrow> nat \<Rightarrow> 'f vec3_t \<Rightarrow> 'f vec3_t"
  md_util_com_compute ::
    "'f list \<Rightarrow> 'f list \<Rightarrow> 'f list \<Rightarrow> 'f list \<Rightarrow> int list \<Rightarrow> nat \<Rightarrow> 'f vec3_t"
  md_util_deperiodize_system ::
    "'f list \<Rightarrow> 'f list \<Rightarrow> 'f list \<Rightarrow> 'f list \<Rightarrow> nat \<Rightarrow> 'f md_unit_cell_t
       \<Rightarrow> nat list \<Rightarrow> int list \<Rightarrow> nat \<Rightarrow> 'f list \<times> 'f list \<times> 'f list"

definition vec3_set1 :: "'f \<Rightarrow> 'f vec3_t" where
  "vec3_set1 v = (v, v, v)"

definition vec3_set :: "'f \<Rightarrow> 'f \<Rightarrow> 'f \<Rightarrow> 'f vec3_t" where
  "vec3_set a b c = (a, b, c)"

text \<open>\<^verbatim>\<open>v * s\<close>, \<^verbatim>\<open>a - b\<close> and \<^verbatim>\<open>-v\<close> on \<^verbatim>\<open>vec3_t\<close> work by component.\<close>

definition vec3_mul_f :: "'f vec_math \<Rightarrow> 'f vec3_t \<Rightarrow> 'f \<Rightarrow> 'f vec3_t" where
  "vec3_mul_f M v s = (case v of (a, b, c) \<Rightarrow> (f_mul M a s, f_mul M b s, f_mul M c s))"

definition vec3_sub :: "'f vec_math \<Rightarrow> 'f vec3_t \<Rightarrow> 'f vec3_t \<Rightarrow> 'f vec3_t" where
  "vec3_sub M v w =
     (case v of (a, b, c) \<Rightarrow> case w of (d, e, f) \<Rightarrow> (f_sub M a d, f_sub M b e, f_sub M c f))"

definition vec3_neg :: "'f vec_math \<Rightarrow> 'f vec3_t \<Rightarrow> 'f vec3_t" where
  "vec3_neg M v = (case v of (a, b, c) \<Rightarrow> (f_neg M a, f_neg M b, f_neg M c))"

text \<open>
  \<^verbatim>\<open>vec3_batch_translate_inplace(x, y, z, count, t)\<close> adds \<^verbatim>\<open>t\<close> to the first
  \<^verbatim>\<open>count\<close> points and leaves the rest of the arrays alone.
\<close>

definition translate_array :: "'f vec_math \<Rightarrow> 'f list \<Rightarrow> nat \<Rightarrow> 'f \<Rightarrow> 'f list" where
  "translate_array M xs n t = map (\<lambda>v. f_add M v t) (take n xs) @ drop n xs"

definition vec3_batch_translate_inplace ::
  "'f vec_math \<Rightarrow> 'f md_frame_data_t \<Rightarrow> nat \<Rightarrow> 'f vec3_t \<Rightarrow> 'f md_frame_data_t" where
  "vec3_batch_translate_inplace M fd n t =
     (case t of (tx, ty, tz) \<Rightarrow>
        fd\<lparr>frame_x := translate_array M (frame_x fd) n tx,
           frame_y := translate_array M (frame_y fd) n ty,
           frame_z := translate_array M (frame_z fd) n tz\<rparr>)"

subsection \<open>Bitfields\<close>

text \<open>
  \<^verbatim>\<open>md_bitfield_t\<close> as the list of its bits from bit 0. A bitfield without bits is
  empty; \<^verbatim>\<open>md_bitfield_init\<close> and \<^verbatim>\<open>md_bitfield_clear\<close> leave it so;
  \<^verbatim>\<open>md_bitfield_extract_indices\<close> lists the positions of the set bits upwards.
\<close>

type_synonym md_bitfield_t = "bool list"

definition md_bitfield_init :: md_bitfield_t where
  "md_bitfield_init = []"

definition md_bitfield_clear :: "md_bitfield_t \<Rightarrow> md_bitfield_t" where
  "md_bitfield_clear bf = []"

definition md_bitfield_copy :: "md_bitfield_t \<Rightarrow> md_bitfield_t \<Rightarrow> md_bitfield_t" where
  "md_bitfield_copy dst src = src"

definition md_bitfield_empty :: "md_bitfield_t \<Rightarrow> bool" where
  "md_bitfield_empty bf = (bf = [])"

definition md_bitfield_popcount :: "md_bitfield_t \<Rightarrow> nat" where
  "md_bitfield_popcount bf = length (filter (\<lambda>b. b) bf)"

definition md_bitfield_extract_indices :: "md_bitfield_t \<Rightarrow> int list" where
  "md_bitfield_extract_indices bf = map int (filter (\<lambda>i. bf ! i) [0..<length bf])"

subsection \<open>Frame cache\<close>

text \<open>
  Modelled from the spec: \<^verbatim>\<open>md_frame_cache_t\<close> and its operations (mdlib's
  \<^verbatim>\<open>md_frame_cache.h\<close>) are not among the sources. The cache has a fixed capacity and
  maps a frame index to a slot holding frame data. \<^verbatim>\<open>md_frame_cache_find_or_reserve\<close>
  reports whether a slot carries the index; if none does, it reserves a slot for the index,
  evicting the least recently reserved one when the cache is full, and hands the slot's
  frame data to the writer. The loader makes the same cache calls whether the backend's
  decode succeeds or not, so the reserved slot keeps the index and whatever was written
  to it.
\<close>

record 'f md_frame_cache_t =
  cache_capacity :: nat
  cache_slots :: "(int \<times> 'f md_frame_data_t) list"

definition md_frame_cache_init :: "nat \<Rightarrow> 'f md_frame_cache_t" where
  "md_frame_cache_init num_frames = \<lparr>cache_capacity = num_frames, cache_slots = []\<rparr>"

definition md_frame_cache_find :: "'f md_frame_cache_t \<Rightarrow> int \<Rightarrow> 'f md_frame_data_t option" where
  "md_frame_cache_find c idx = map_of (cache_slots c) idx"

definition md_frame_cache_reserve ::
  "'f md_frame_cache_t \<Rightarrow> int \<Rightarrow> 'f md_frame_data_t \<Rightarrow> 'f md_frame_cache_t" where
  "md_frame_cache_reserve c idx fd =
     (if cache_capacity c = 0 then c
      else c\<lparr>cache_slots := (idx, fd) # take (cache_capacity c - 1) (cache_slots c)\<rparr>)"

definition md_frame_cache_clear :: "'f md_frame_cache_t \<Rightarrow> 'f md_frame_cache_t" where
  "md_frame_cache_clear c = c\<lparr>cache_slots := []\<rparr>"

section \<open>The registry of open trajectories\<close>

record 'f LoadedTrajectory =
  lt_key :: nat
  lt_mol :: "'f md_molecule_t"
  lt_loader :: md_trajectory_loader_i
  lt_traj :: "'f md_trajectory_i"
  lt_cache :: "'f md_frame_cache_t"
  lt_recenter_target :: md_bitfield_t
  lt_deperiodize :: bool

text \<open>
  The state the loader keeps between calls.
  \<^item> \<open>loaded_trajectories\<close> is the array \<^verbatim>\<open>loaded_trajectories[8]\<close> as a map from the
    slot index to the slot's content: \<open>None\<close> is a slot of zero bytes, as the array is
    at the start. A pointer to an entry is the index of its slot. The slots from
    \<^verbatim>\<open>num_loaded_trajectories\<close> on are not in use but keep what was last written to
    them; the slots from 8 on are the memory behind the array.
  \<^item> \<open>live_backends\<close> lists the backend instances that were created and not destroyed.
  \<^item> \<open>handle_inst\<close> gives, for the address of a \<^verbatim>\<open>md_trajectory_i\<close> that
    \<^verbatim>\<open>open_file\<close> returned, the member \<^verbatim>\<open>inst\<close> of that object: the pointer to
    the entry that \<^verbatim>\<open>open_file\<close> stored there. \<open>None\<close> is a null \<^verbatim>\<open>inst\<close> (an
    object of zero bytes, as \<^verbatim>\<open>close\<close> leaves it, or no such object).
\<close>

record 'f loader_globals =
  loaded_trajectories :: "nat \<Rightarrow> 'f LoadedTrajectory option"
  num_loaded_trajectories :: nat
  live_backends :: "nat list"
  handle_inst :: "nat \<Rightarrow> nat option"

definition ARRAY_SIZE_loaded_trajectories :: nat where
  "ARRAY_SIZE_loaded_trajectories = 8"

text \<open>
  The loop \<^verbatim>\<open>for (i = 0; i < num_loaded_trajectories; ++i)\<close> of
  \<^verbatim>\<open>find_loaded_trajectory\<close>, with \<open>n\<close> slots left to look at from slot \<open>i\<close>. The
  result is the pointer it returns: the index of the slot and the entry there. Keys are
  addresses of allocated objects, so a slot of zero bytes carries no key that is asked for.
\<close>

fun find_key ::
  "(nat \<Rightarrow> 'f LoadedTrajectory option) \<Rightarrow> nat \<Rightarrow> nat \<Rightarrow> nat
     \<Rightarrow> (nat \<times> 'f LoadedTrajectory) option" where
  "find_key slots k 0 i = None"
| "find_key slots k (Suc n) i =
     (case slots i of
        Some e \<Rightarrow> (if lt_key e = k then Some (i, e) else find_key slots k n (Suc i))
      | None \<Rightarrow> find_key slots k n (Suc i))"

definition find_loaded_trajectory ::
  "'f loader_globals \<Rightarrow> nat \<Rightarrow> (nat \<times> 'f LoadedTrajectory) option" where
  "find_loaded_trajectory g k =
     find_key (loaded_trajectories g) k (num_loaded_trajectories g) 0"

text \<open>
  \<^verbatim>\<open>alloc_loaded_trajectory\<close> has two assertions and returns the pointer to the slot
  \<^verbatim>\<open>num_loaded_trajectories++\<close>, cleared and carrying the key. The model returns the
  index of that slot; the caller, which fills the entry in, stores the filled entry there
  and counts \<^verbatim>\<open>num_loaded_trajectories\<close> up. Without assertions the index is returned
  also when it is 8 or more.
\<close>

definition alloc_loaded_trajectory :: "bool \<Rightarrow> 'f loader_globals \<Rightarrow> nat \<Rightarrow> error + nat" where
  "alloc_loaded_trajectory asserts g k =
     (if asserts \<and> find_loaded_trajectory g k \<noteq> None then Inl AssertionFailure
      else if asserts \<and> \<not> num_loaded_trajectories g < ARRAY_SIZE_loaded_trajectories
      then Inl AssertionFailure
      else Inr (num_loaded_trajectories g))"

text \<open>
  \<^verbatim>\<open>remove_loaded_trajectory\<close>: the entry with the key has its cache freed and its
  backend destroyed and is overwritten with the last entry in use, which stays in its
  old slot as well.
\<close>

definition remove_loaded_trajectory ::
  "bool \<Rightarrow> 'f loader_globals \<Rightarrow> nat \<Rightarrow> error + 'f loader_globals" where
  "remove_loaded_trajectory asserts g k =
     (case find_loaded_trajectory g k of
        Some (i, e) \<Rightarrow>
          (let n = num_loaded_trajectories g - 1
           in Inr (g\<lparr>loaded_trajectories :=
                       (loaded_trajectories g)(i := loaded_trajectories g n),
                     num_loaded_trajectories := n,
                     live_backends := remove1 (traj_inst (lt_traj e)) (live_backends g)\<rparr>))
      | None \<Rightarrow> (if asserts then Inl AssertionFailure else Inr g))"

section \<open>The trajectory facade (namespace \<^verbatim>\<open>load::traj\<close>)\<close>

definition fetch_frame_data :: "int \<Rightarrow> nat \<times> int" where
  "fetch_frame_data idx = (8, idx)"

text \<open>
  The block that runs after a successful backend decode when the recenter target is not
  empty: the center of mass of the target, and the translation of all atoms.
\<close>

definition recenter_frame ::
  "'f vec_math \<Rightarrow> 'f md_molecule_t \<Rightarrow> md_bitfield_t \<Rightarrow> 'f md_frame_data_t \<Rightarrow> 'f md_frame_data_t" where
  "recenter_frame M mol bf fd =
     (let cell = unit_cell (header fd);
          have_cell = (cell_flags cell \<noteq> 0);
          n = num_atoms (header fd)
      in if \<not> md_bitfield_empty bf then
           (let count = md_bitfield_popcount bf in
            if count > 0 then
              (let indices = md_bitfield_extract_indices bf;
                   box_ext = mat3_mul_vec3 M (basis cell) (vec3_set1 (f_one M));
                   com =
                     (if count = 1 then
                        (let i = nat (indices ! 0)
                         in vec3_set (frame_x fd ! i) (frame_y fd ! i) (frame_z fd ! i))
                      else if have_cell then
                        vec3_deperiodize M
                          (md_util_compute_com_ortho M (frame_x fd) (frame_y fd) (frame_z fd)
                             (atom_mass mol) indices count box_ext)
                          (vec3_mul_f M box_ext (f_half M)) box_ext
                      else
                        md_util_com_compute M (frame_x fd) (frame_y fd) (frame_z fd)
                          (atom_mass mol) indices count);
                   trans =
                     (if have_cell then vec3_sub M (vec3_mul_f M box_ext (f_half M)) com
                      else vec3_neg M com)
               in vec3_batch_translate_inplace M fd n trans)
            else fd)
         else fd)"

definition deperiodize_frame ::
  "'f vec_math \<Rightarrow> 'f md_molecule_t \<Rightarrow> bool \<Rightarrow> 'f md_frame_data_t \<Rightarrow> 'f md_frame_data_t" where
  "deperiodize_frame M mol deperiodize fd =
     (let cell = unit_cell (header fd);
          have_cell = (cell_flags cell \<noteq> 0)
      in if deperiodize \<and> have_cell then
           (case md_util_deperiodize_system M (frame_x fd) (frame_y fd) (frame_z fd)
                   (atom_mass mol) (atom_count mol) cell (structures_offsets mol)
                   (structures_indices mol) (md_index_data_count (structures_offsets mol)) of
              (xs, ys, zs) \<Rightarrow> fd\<lparr>frame_x := xs, frame_y := ys, frame_z := zs\<rparr>)
         else fd)"

text \<open>What the caller's buffers receive: the header and \<^verbatim>\<open>num_atoms\<close> values per array.\<close>

definition copy_out :: "'f md_frame_data_t \<Rightarrow> 'f md_frame_data_t" where
  "copy_out fd =
     (let n = num_atoms (header fd)
      in \<lparr>header = header fd, frame_x = take n (frame_x fd), frame_y = take n (frame_y fd),
          frame_z = take n (frame_z fd)\<rparr>)"


text \<open>
  \<^verbatim>\<open>decode_frame_data(inst, data_ptr, data_size, header, out_x, out_y, out_z)\<close>:
  \<open>inst\<close> is the entry the pointer refers to (\<open>None\<close> for a null pointer), \<open>idx\<close> the
  integer stored at \<^verbatim>\<open>data_ptr\<close>. The result carries the return value, what was
  copied to the caller's buffers (all four given) and the entry with its cache updated.
  The scratch buffer is allocated and freed inside the call. The three assertions are
  the only checks of the arguments: without them the index goes to the cache and to the
  backend whatever it is.
\<close>

definition decode_frame_data ::
  "bool \<Rightarrow> 'f vec_math \<Rightarrow> 'f LoadedTrajectory option \<Rightarrow> int \<Rightarrow> nat
     \<Rightarrow> error + (bool \<times> 'f md_frame_data_t option \<times> 'f LoadedTrajectory)" where
  "decode_frame_data asserts M inst idx data_len =
     (case inst of
        None \<Rightarrow> (if asserts then Inl AssertionFailure else Inl NullPointer)
      | Some loaded_traj \<Rightarrow>
          if asserts \<and> data_len \<noteq> 8 then Inl AssertionFailure
          else if asserts \<and> \<not> (0 \<le> idx \<and> idx < int (traj_num_frames (lt_traj loaded_traj)))
          then Inl AssertionFailure
          else
            (case md_frame_cache_find (lt_cache loaded_traj) idx of
               Some frame_data \<Rightarrow> Inr (True, Some (copy_out frame_data), loaded_traj)
             | None \<Rightarrow>
                 (let frame_data_ptr = traj_fetch_frame_data (lt_traj loaded_traj) idx;
                      (result, decoded) = traj_decode_frame_data (lt_traj loaded_traj) frame_data_ptr;
                      frame_data =
                        (if result then
                           deperiodize_frame M (lt_mol loaded_traj) (lt_deperiodize loaded_traj)
                             (recenter_frame M (lt_mol loaded_traj)
                                (lt_recenter_target loaded_traj) decoded)
                         else decoded);
                      loaded_traj' =
                        loaded_traj\<lparr>lt_cache :=
                          md_frame_cache_reserve (lt_cache loaded_traj) idx frame_data\<rparr>
                  in Inr (result, if result then Some (copy_out frame_data) else None,
                          loaded_traj'))))"

definition load_frame ::
  "bool \<Rightarrow> 'f vec_math \<Rightarrow> 'f LoadedTrajectory option \<Rightarrow> int
     \<Rightarrow> error + (bool \<times> 'f md_frame_data_t option \<times> 'f LoadedTrajectory)" where
  "load_frame asserts M inst idx = decode_frame_data asserts M inst idx 8"

subsection \<open>Opening and reconfiguring\<close>

text \<open>
  Modelled from the spec: the macros \<^verbatim>\<open>MIN\<close>, \<^verbatim>\<open>MAX\<close>, \<^verbatim>\<open>CLAMP\<close> and
  \<^verbatim>\<open>MEGABYTES\<close> come from mdlib's \<^verbatim>\<open>core/md_common.h\<close>; \<^verbatim>\<open>CLAMP(v, lo, hi)\<close>
  bounds \<^verbatim>\<open>v\<close> from below by \<^verbatim>\<open>lo\<close> and then from above by \<^verbatim>\<open>hi\<close>.
  \<open>MIN_u64\<close> and \<open>MAX_u64\<close> are \<^verbatim>\<open>MIN\<close> and \<^verbatim>\<open>MAX\<close> on unsigned values.
\<close>

definition MIN_u64 :: "nat \<Rightarrow> nat \<Rightarrow> nat" where
  "MIN_u64 a b = (if a < b then a else b)"

definition MAX_u64 :: "nat \<Rightarrow> nat \<Rightarrow> nat" where
  "MAX_u64 a b = (if a > b then a else b)"

definition CLAMP :: "nat \<Rightarrow> nat \<Rightarrow> nat \<Rightarrow> nat" where
  "CLAMP v lo hi = MIN_u64 (MAX_u64 v lo) hi"

definition MEGABYTES :: "nat \<Rightarrow> nat" where
  "MEGABYTES n = n * 1024 * 1024"


text \<open>
  \<^verbatim>\<open>open_file(filename, loader, mol, alloc)\<close>. \<open>resolve_loader\<close> is its first
  step: a null \<^verbatim>\<open>loader\<close> is replaced by the table's loader for the extension of
  the file name. \<open>create\<close> is what
  \<^verbatim>\<open>loader->create(filename, alloc)\<close> returns for a loader and a file. The result is the
  returned pointer (the address of the new \<^verbatim>\<open>md_trajectory_i\<close>, which is also the key
  of the registry entry), the allocator and the state. The molecule and the allocator are
  given, so the two assertions on these pointers hold. The sizes are
  \<^verbatim>\<open>uint64_t\<close>; the product \<^verbatim>\<open>atom.count * 3 * sizeof(float)\<close> wraps at \<open>2 ^ 64\<close>.
  The last step stores the pointer to the entry in the member \<^verbatim>\<open>inst\<close> of the new
  object.
\<close>

definition resolve_loader ::
  "str_t \<Rightarrow> md_trajectory_loader_i option \<Rightarrow> md_trajectory_loader_i option" where
  "resolve_loader filename loader =
     (case loader of
        Some l \<Rightarrow> Some l
      | None \<Rightarrow>
          (case extract_ext filename of
             Some ext \<Rightarrow> load_traj_loader_from_ext ext
           | None \<Rightarrow> None))"

definition open_file ::
  "bool \<Rightarrow> platform \<Rightarrow> (md_trajectory_loader_i \<Rightarrow> str_t \<Rightarrow> 'f md_trajectory_i option)
     \<Rightarrow> 'f loader_globals \<Rightarrow> str_t \<Rightarrow> md_trajectory_loader_i option \<Rightarrow> 'f md_molecule_t
     \<Rightarrow> md_allocator_i \<Rightarrow> error + (nat option \<times> md_allocator_i \<times> 'f loader_globals)" where
  "open_file asserts P create g filename loader mol alloc =
     (case resolve_loader filename loader of
           None \<Rightarrow> Inr (None, alloc, g)
         | Some l \<Rightarrow>
             (case create l filename of
                None \<Rightarrow> Inr (None, alloc, g)
              | Some internal_traj \<Rightarrow>
                  (let g1 = g\<lparr>live_backends := traj_inst internal_traj # live_backends g\<rparr>
                   in if traj_num_atoms internal_traj \<noteq> atom_count mol then
                        Inr (None, alloc,
                             g1\<lparr>live_backends :=
                                  remove1 (traj_inst internal_traj) (live_backends g1)\<rparr>)
                      else
                        (let (traj, alloc1) = md_alloc alloc (sizeof_md_trajectory_i P)
                         in case alloc_loaded_trajectory asserts g1 traj of
                              Inl e \<Rightarrow> Inl e
                            | Inr slot \<Rightarrow>
                                (let num_traj_frames = traj_num_frames internal_traj;
                                     frame_cache_size =
                                       CLAMP (MEGABYTES (VIAMD_FRAME_CACHE_SIZE P)) (MEGABYTES 4)
                                         (md_os_physical_ram P div 4);
                                     approx_frame_size = (atom_count mol * 3 * 4) mod 2 ^ 64
                                 in if approx_frame_size = 0 then Inl DivisionByZero
                                    else
                                      (let max_num_cache_frames =
                                             frame_cache_size div approx_frame_size;
                                           num_cache_frames =
                                             MIN_u64 num_traj_frames max_num_cache_frames;
                                           inst =
                                             \<lparr>lt_key = traj, lt_mol = mol, lt_loader = l,
                                              lt_traj = internal_traj,
                                              lt_cache = md_frame_cache_init num_cache_frames,
                                              lt_recenter_target = md_bitfield_init,
                                              lt_deperiodize = False\<rparr>
                                       in Inr (Some traj, alloc1,
                                               g1\<lparr>loaded_trajectories :=
                                                    (loaded_trajectories g1)(slot := Some inst),
                                                  num_loaded_trajectories :=
                                                    Suc (num_loaded_trajectories g1),
                                                  handle_inst :=
                                                    (handle_inst g1)(traj := Some slot)\<rparr>)))))))"

text \<open>
  The calls on a handle take the address \<open>traj\<close> of the \<^verbatim>\<open>md_trajectory_i\<close>, which is
  not null (the assertion on it holds), and find the entry by this key.
  \<^verbatim>\<open>close\<close> ends with \<^verbatim>\<open>memset(traj, 0, sizeof(md_trajectory_i))\<close>, which makes the
  member \<^verbatim>\<open>inst\<close> null; when the key is not found it logs an error and, after
  \<^verbatim>\<open>ASSERT(false)\<close>, returns false.
\<close>

definition close :: "bool \<Rightarrow> 'f loader_globals \<Rightarrow> nat \<Rightarrow> error + (bool \<times> 'f loader_globals)" where
  "close asserts g traj =
     (case find_loaded_trajectory g traj of
        Some (i, loaded_traj) \<Rightarrow>
          (case remove_loaded_trajectory asserts g (lt_key loaded_traj) of
             Inl e \<Rightarrow> Inl e
           | Inr g' \<Rightarrow> Inr (True, g'\<lparr>handle_inst := (handle_inst g')(traj := None)\<rparr>))
      | None \<Rightarrow> (if asserts then Inl AssertionFailure else Inr (False, g)))"

definition set_recenter_target ::
  "'f loader_globals \<Rightarrow> nat \<Rightarrow> md_bitfield_t option \<Rightarrow> bool \<times> 'f loader_globals" where
  "set_recenter_target g traj atom_mask =
     (case find_loaded_trajectory g traj of
        Some (i, loaded_traj) \<Rightarrow>
          (let target =
                 (case atom_mask of
                    Some m \<Rightarrow> md_bitfield_copy (lt_recenter_target loaded_traj) m
                  | None \<Rightarrow> md_bitfield_clear (lt_recenter_target loaded_traj))
           in (True,
               g\<lparr>loaded_trajectories :=
                   (loaded_trajectories g)
                     (i := Some (loaded_traj\<lparr>lt_recenter_target := target\<rparr>))\<rparr>))
      | None \<Rightarrow> (False, g))"

definition set_deperiodize :: "'f loader_globals \<Rightarrow> nat \<Rightarrow> bool \<Rightarrow> bool \<times> 'f loader_globals" where
  "set_deperiodize g traj deperiodize =
     (case find_loaded_trajectory g traj of
        Some (i, loaded_traj) \<Rightarrow>
          (True,
           g\<lparr>loaded_trajectories :=
               (loaded_trajectories g)
                 (i := Some (loaded_traj\<lparr>lt_deperiodize := deperiodize\<rparr>))\<rparr>)
      | None \<Rightarrow> (False, g))"

definition clear_cache :: "'f loader_globals \<Rightarrow> nat \<Rightarrow> bool \<times> 'f loader_globals" where
  "clear_cache g traj =
     (case find_loaded_trajectory g traj of
        Some (i, loaded_traj) \<Rightarrow>
          (True,
           g\<lparr>loaded_trajectories :=
               (loaded_trajectories g)
                 (i := Some (loaded_traj
                         \<lparr>lt_cache := md_frame_cache_clear (lt_cache loaded_traj)\<rparr>))\<rparr>)
      | None \<Rightarrow> (False, g))"

text \<open>
  A caller loads a frame through the handle: \<^verbatim>\<open>traj->load_frame(traj->inst, idx, ...)\<close>.
  The call does not look the key up: it works on the slot that the member \<^verbatim>\<open>inst\<close>
  points to, whatever that slot holds by now, and the cache update lands in that slot. A
  null \<^verbatim>\<open>inst\<close> comes with a null \<^verbatim>\<open>load_frame\<close> (the object is zero bytes), and a
  slot of zero bytes has a null backend; the call through either is a read through a
  null pointer.
\<close>

definition md_trajectory_load_frame ::
  "bool \<Rightarrow> 'f vec_math \<Rightarrow> 'f loader_globals \<Rightarrow> nat \<Rightarrow> int
     \<Rightarrow> error + (bool \<times> 'f md_frame_data_t option \<times> 'f loader_globals)" where
  "md_trajectory_load_frame asserts M g traj idx =
     (case handle_inst g traj of
        None \<Rightarrow> Inl NullPointer
      | Some inst \<Rightarrow>
          (case loaded_trajectories g inst of
             None \<Rightarrow> Inl NullPointer
           | Some loaded_traj \<Rightarrow>
               (case load_frame asserts M (Some loaded_traj) idx of
                  Inl e \<Rightarrow> Inl e
                | Inr (result, out, loaded_traj') \<Rightarrow>
                    Inr (result, out,
                         g\<lparr>loaded_trajectories :=
                             (loaded_trajectories g)(inst := Some loaded_traj')\<rparr>))))"

text \<open>The return value and the output of a call, without the state it leaves.\<close>

definition returned :: "error + (bool \<times> 'a \<times> 'b) \<Rightarrow> (bool \<times> 'a) option" where
  "returned r = (case r of Inl e \<Rightarrow> None | Inr (res, out, st) \<Rightarrow> Some (res, out))"

section \<open>The recenter rule in the words of the specification\<close>

text \<open>
  The specification of the recenter step: with \<open>box_ext = basis \<cdot> (1,1,1)\<close>, the center of
  mass is the position of the atom if the mask holds only one index; else, if a cell is
  present, the periodic center of mass brought back into the box; else the mass-weighted
  mean. The translation is \<open>box_ext / 2 - com\<close> if a cell is present and \<open>- com\<close> if not.
\<close>

definition spec_box_ext :: "'f vec_math \<Rightarrow> 'f md_frame_data_t \<Rightarrow> 'f vec3_t" where
  "spec_box_ext M fd = mat3_mul_vec3 M (basis (unit_cell (header fd))) (f_one M, f_one M, f_one M)"

definition spec_half_box :: "'f vec_math \<Rightarrow> 'f md_frame_data_t \<Rightarrow> 'f vec3_t" where
  "spec_half_box M fd =
     (case spec_box_ext M fd of (bx, by, bz) \<Rightarrow>
        (f_mul M bx (f_half M), f_mul M by (f_half M), f_mul M bz (f_half M)))"

definition spec_com ::
  "'f vec_math \<Rightarrow> 'f md_molecule_t \<Rightarrow> md_bitfield_t \<Rightarrow> 'f md_frame_data_t \<Rightarrow> 'f vec3_t" where
  "spec_com M mol target fd =
     (case md_bitfield_extract_indices target of
        [i] \<Rightarrow> (frame_x fd ! nat i, frame_y fd ! nat i, frame_z fd ! nat i)
      | indices \<Rightarrow>
          (if cell_flags (unit_cell (header fd)) \<noteq> 0 then
             vec3_deperiodize M
               (md_util_compute_com_ortho M (frame_x fd) (frame_y fd) (frame_z fd) (atom_mass mol)
                  indices (length indices) (spec_box_ext M fd))
               (spec_half_box M fd) (spec_box_ext M fd)
           else
             md_util_com_compute M (frame_x fd) (frame_y fd) (frame_z fd) (atom_mass mol)
               indices (length indices)))"

definition spec_translation ::
  "'f vec_math \<Rightarrow> 'f md_molecule_t \<Rightarrow> md_bitfield_t \<Rightarrow> 'f md_frame_data_t \<Rightarrow> 'f vec3_t" where
  "spec_translation M mol target fd =
     (case spec_com M mol target fd of (cx, cy, cz) \<Rightarrow>
        if cell_flags (unit_cell (header fd)) \<noteq> 0 then
          (case spec_half_box M fd of (hx, hy, hz) \<Rightarrow>
             (f_sub M hx cx, f_sub M hy cy, f_sub M hz cz))
        else (f_neg M cx, f_neg M cy, f_neg M cz))"

section \<open>A small trajectory to run the loader on\<close>

text \<open>
  Coordinates, box lengths and masses are small integers and the only other constant is
  one half, so every single-precision operation below is exact and rational arithmetic
  computes what \<^verbatim>\<open>float\<close> arithmetic computes. The runs use a single-atom target, so
  the periodic and the mass-weighted center of mass and the deperiodization of mdlib are
  never called; they are given as constants and the identity.
\<close>

definition exact_math :: "rat vec_math" where
  "exact_math =
     \<lparr>f_add = (+), f_sub = (-), f_mul = (*), f_neg = uminus, f_one = 1, f_half = 1 / 2,
      mat3_mul_vec3 =
        (\<lambda>m v. case m of (c0, c1, c2) \<Rightarrow> case v of (vx, vy, vz) \<Rightarrow>
           case c0 of (a0, a1, a2) \<Rightarrow> case c1 of (b0, b1, b2) \<Rightarrow> case c2 of (d0, d1, d2) \<Rightarrow>
             (a0 * vx + b0 * vy + d0 * vz, a1 * vx + b1 * vy + d1 * vz,
              a2 * vx + b2 * vy + d2 * vz)),
      vec3_deperiodize = (\<lambda>p r ext. p),
      md_util_compute_com_ortho = (\<lambda>xs ys zs ms idx n ext. (0, 0, 0)),
      md_util_com_compute = (\<lambda>xs ys zs ms idx n. (0, 0, 0)),
      md_util_deperiodize_system = (\<lambda>xs ys zs ms n cell offs idx k. (xs, ys, zs))\<rparr>"

text \<open>
  Two atoms at \<open>(1,2,3)\<close> and \<open>(4,5,6)\<close> in a cubic box of length 10; \<open>fl\<close> is the
  flag word of the unit cell (0: the frame has no cell).
\<close>

definition ex_frame :: "32 word \<Rightarrow> rat md_frame_data_t" where
  "ex_frame fl =
     \<lparr>header = \<lparr>num_atoms = 2, index = 0, timestamp = 0,
                unit_cell = \<lparr>basis = ((10, 0, 0), (0, 10, 0), (0, 0, 10)), cell_flags = fl\<rparr>\<rparr>,
      frame_x = [1, 4], frame_y = [2, 5], frame_z = [3, 6]\<rparr>"

definition ex_traj :: "32 word \<Rightarrow> rat md_trajectory_i" where
  "ex_traj fl =
     \<lparr>traj_inst = 7, traj_num_atoms = 2, traj_num_frames = 3,
      traj_fetch_frame_data = (\<lambda>idx. [nat idx]),
      traj_decode_frame_data = (\<lambda>blob. (True, ex_frame fl))\<rparr>"

definition ex_mol :: "rat md_molecule_t" where
  "ex_mol =
     \<lparr>atom_count = 2, atom_mass = [1, 1], structures_offsets = [0, 2],
      structures_indices = [0, 1]\<rparr>"

text \<open>A machine with 16 GiB of memory and a build with a frame cache of 1024 MB.\<close>

definition ex_platform :: platform where
  "ex_platform =
     \<lparr>md_lammps_atom_format_from_file = (\<lambda>p. MD_LAMMPS_ATOM_FORMAT_UNKNOWN),
      sizeof_lammps_arg = 16, sizeof_md_trajectory_i = 40,
      md_os_physical_ram = 17179869184, VIAMD_FRAME_CACHE_SIZE = 1024\<rparr>"

definition ex_create :: "md_trajectory_loader_i \<Rightarrow> str_t \<Rightarrow> rat md_trajectory_i option" where
  "ex_create l path = (if path = ''run.xtc'' then Some (ex_traj 0) else None)"

definition ex_alloc :: md_allocator_i where
  "ex_alloc = \<lparr>alloc_next = 1, alloc_live = []\<rparr>"


definition ex_globals :: "rat loader_globals" where
  "ex_globals =
     \<lparr>loaded_trajectories = (\<lambda>i. None), num_loaded_trajectories = 0, live_backends = [],
      handle_inst = (\<lambda>h. None)\<rparr>"

text \<open>The entry and the state that opening \<^verbatim>\<open>run.xtc\<close> in the empty state leaves.\<close>

definition ex_entry :: "32 word \<Rightarrow> rat LoadedTrajectory" where
  "ex_entry fl =
     \<lparr>lt_key = 1, lt_mol = ex_mol, lt_loader = md_xtc_trajectory_loader,
      lt_traj = ex_traj fl, lt_cache = md_frame_cache_init 3,
      lt_recenter_target = md_bitfield_init, lt_deperiodize = False\<rparr>"

definition ex_opened :: "rat loader_globals" where
  "ex_opened =
     \<lparr>loaded_trajectories = (\<lambda>i. None)(0 := Some (ex_entry 0)), num_loaded_trajectories = 1,
      live_backends = [7], handle_inst = (\<lambda>h. None)(1 := Some 0)\<rparr>"

text \<open>
  Recenter on atom 0, load frame 0, then reset the recenter target: three calls on the
  handle 1 of \<open>ex_opened\<close>. \<open>ex_recentered\<close> is the frame with atom 0 moved to the
  origin.
\<close>

definition ex_recentered :: "rat md_frame_data_t" where
  "ex_recentered = (ex_frame 0)\<lparr>frame_x := [0, 3], frame_y := [0, 3], frame_z := [0, 3]\<rparr>"

definition ex_targeted :: "rat loader_globals" where
  "ex_targeted = snd (set_recenter_target ex_opened 1 (Some [True]))"

definition ex_loaded :: "rat loader_globals" where
  "ex_loaded =
     (case md_trajectory_load_frame True exact_math ex_targeted 1 0 of
        Inr (r, out, g) \<Rightarrow> g
      | Inl e \<Rightarrow> ex_targeted)"

definition ex_cleared :: "rat loader_globals" where
  "ex_cleared = snd (set_recenter_target ex_loaded 1 None)"

text \<open>Opening \<^verbatim>\<open>run.xtc\<close> \<open>n\<close> times in a row, starting from the empty state.\<close>

fun open_times :: "bool \<Rightarrow> nat \<Rightarrow> error + (md_allocator_i \<times> rat loader_globals)" where
  "open_times asserts 0 = Inr (ex_alloc, ex_globals)"
| "open_times asserts (Suc n) =
     (case open_times asserts n of
        Inl e \<Rightarrow> Inl e
      | Inr (a, g) \<Rightarrow>
          (case open_file asserts ex_platform ex_create g ''run.xtc'' None ex_mol a of
             Inl e \<Rightarrow> Inl e
           | Inr (h, a', g') \<Rightarrow> Inr (a', g')))"

text \<open>
  The allocator and the state after \<open>n\<close> such calls: the handles \<open>1, \<dots>, n\<close> with
  their entries in the slots \<open>0, \<dots>, n - 1\<close>.
\<close>

definition ex_alloc_after :: "nat \<Rightarrow> md_allocator_i" where
  "ex_alloc_after n =
     \<lparr>alloc_next = Suc n, alloc_live = rev (map (\<lambda>k. (Suc k, 40)) [0..<n])\<rparr>"

definition ex_after :: "nat \<Rightarrow> rat loader_globals" where
  "ex_after n =
     \<lparr>loaded_trajectories = (\<lambda>i. if i < n then Some ((ex_entry 0)\<lparr>lt_key := Suc i\<rparr>) else None),
      num_loaded_trajectories = n,
      live_backends = replicate n 7,
      handle_inst = (\<lambda>h. if 1 \<le> h \<and> h \<le> n then Some (h - 1) else None)\<rparr>"

text \<open>The full registry, and what a ninth call leaves when assertions are compiled out.\<close>

definition ex_full_alloc :: md_allocator_i where
  "ex_full_alloc = ex_alloc_after 8"

definition ex_full :: "rat loader_globals" where
  "ex_full = ex_after 8"

text \<open>
  Two trajectories are open, and the first handle is closed: the entry of handle 2 moves
  to slot 0, while the member \<^verbatim>\<open>inst\<close> of handle 2 still points to slot 1.
\<close>

definition ex_closed :: "rat loader_globals" where
  "ex_closed =
     (case close True (ex_after 2) 1 of
        Inr (r, g) \<Rightarrow> g
      | Inl e \<Rightarrow> ex_after 2)"

text \<open>A molecule without atoms and a backend trajectory that reports no atoms.\<close>

definition ex_mol0 :: "rat md_molecule_t" where
  "ex_mol0 = \<lparr>atom_count = 0, atom_mass = [], structures_offsets = [], structures_indices = []\<rparr>"

definition ex_create0 :: "md_trajectory_loader_i \<Rightarrow> str_t \<Rightarrow> rat md_trajectory_i option" where
  "ex_create0 l path = Some ((ex_traj 0)\<lparr>traj_num_atoms := 0\<rparr>)"

section \<open>Properties of the format registry\<close>

lemma to_lower_lits:
  "map to_lower ''pdb'' = ''pdb''" "map to_lower ''gro'' = ''gro''"
  "map to_lower ''xtc'' = ''xtc''" "map to_lower ''trr'' = ''trr''"
  "map to_lower ''xyz'' = ''xyz''" "map to_lower ''xmol'' = ''xmol''"
  "map to_lower ''arc'' = ''arc''" "map to_lower ''cif'' = ''cif''"
  "map to_lower ''data'' = ''data''"
  by (simp_all add: to_lower_def)

lemma toks:
  "extract_tokens_delim 16 ''xyz;xmol;arc'' CHR '';'' = [''xyz'', ''xmol'', ''arc'']"
  "extract_tokens_delim 16 ''pdb'' CHR '';'' = [''pdb'']"
  "extract_tokens_delim 16 ''gro'' CHR '';'' = [''gro'']"
  "extract_tokens_delim 16 ''cif'' CHR '';'' = [''cif'']"
  "extract_tokens_delim 16 ''data'' CHR '';'' = [''data'']"
  "extract_tokens_delim 16 ''xtc'' CHR '';'' = [''xtc'']"
  "extract_tokens_delim 16 ''trr'' CHR '';'' = [''trr'']"
  by (simp_all add: extract_tokens_delim_def)

lemma eq_ic:
  "str_eq_ignore_case ext ''pdb'' \<longleftrightarrow> map to_lower ext = ''pdb''"
  "str_eq_ignore_case ext ''gro'' \<longleftrightarrow> map to_lower ext = ''gro''"
  "str_eq_ignore_case ext ''xtc'' \<longleftrightarrow> map to_lower ext = ''xtc''"
  "str_eq_ignore_case ext ''trr'' \<longleftrightarrow> map to_lower ext = ''trr''"
  "str_eq_ignore_case ext ''xyz'' \<longleftrightarrow> map to_lower ext = ''xyz''"
  "str_eq_ignore_case ext ''xmol'' \<longleftrightarrow> map to_lower ext = ''xmol''"
  "str_eq_ignore_case ext ''arc'' \<longleftrightarrow> map to_lower ext = ''arc''"
  "str_eq_ignore_case ext ''cif'' \<longleftrightarrow> map to_lower ext = ''cif''"
  "str_eq_ignore_case ext ''data'' \<longleftrightarrow> map to_lower ext = ''data''"
  unfolding str_eq_ignore_case_def to_lower_lits by (rule refl)+

text \<open>The extensions the two enumerator lookups know, up to letter case.\<close>

lemma mol_known:
  "mol_loader_from_ext ext \<noteq> MOL_LOADER_UNKNOWN \<longleftrightarrow>
   map to_lower ext \<in> {''pdb'', ''gro'', ''xyz'', ''xmol'', ''arc'', ''cif'', ''data''}"
proof -
  define e where "e = map to_lower ext"
  show ?thesis
    unfolding mol_loader_from_ext_def
    by (simp add: toks eq_ic flip: e_def)
qed

lemma traj_known:
  "traj_loader_from_ext ext \<noteq> TRAJ_LOADER_UNKNOWN \<longleftrightarrow>
   map to_lower ext \<in> {''pdb'', ''xtc'', ''trr'', ''xyz'', ''xmol'', ''arc''}"
proof -
  define e where "e = map to_lower ext"
  show ?thesis
    unfolding traj_loader_from_ext_def
    by (simp add: toks eq_ic flip: e_def)
qed

lemma mol_api_some: "mol_loader_api l \<noteq> None \<longleftrightarrow> l \<noteq> MOL_LOADER_UNKNOWN"
  by (cases l) simp_all

lemma traj_api_some: "traj_loader_api l \<noteq> None \<longleftrightarrow> l \<noteq> TRAJ_LOADER_UNKNOWN"
  by (cases l) simp_all

lemma table_index_cases:
  "(\<exists>i<NUM_ENTRIES. P i) \<longleftrightarrow> P 0 \<or> P 1 \<or> P 2 \<or> P 3 \<or> P 4 \<or> P 5 \<or> P 6 \<or> P 7 \<or> P 8"
proof
  assume "\<exists>i<NUM_ENTRIES. P i"
  then obtain i where i: "i < 9" "P i" by (auto simp: NUM_ENTRIES_def)
  then have "i = 0 \<or> i = 1 \<or> i = 2 \<or> i = 3 \<or> i = 4 \<or> i = 5 \<or> i = 6 \<or> i = 7 \<or> i = 8"
    by arith
  with i(2) show "P 0 \<or> P 1 \<or> P 2 \<or> P 3 \<or> P 4 \<or> P 5 \<or> P 6 \<or> P 7 \<or> P 8" by blast
next
  assume "P 0 \<or> P 1 \<or> P 2 \<or> P 3 \<or> P 4 \<or> P 5 \<or> P 6 \<or> P 7 \<or> P 8"
  then show "\<exists>i<NUM_ENTRIES. P i" unfolding NUM_ENTRIES_def by force
qed

text \<open>
  The table and the two enumerator lists name the same extensions: an extension equals,
  up to letter case, the token of a table entry that has a molecule or a trajectory
  loader exactly if one of the enumerator lookups knows it.
\<close>

lemma registered_iff:
  "(\<exists>i<NUM_ENTRIES. str_eq_ignore_case ext (table_ext ! i) \<and>
        (table_mol_loader ! i \<noteq> None \<or> table_traj_loader ! i \<noteq> None))
   \<longleftrightarrow> mol_loader_from_ext ext \<noteq> MOL_LOADER_UNKNOWN \<or>
       traj_loader_from_ext ext \<noteq> TRAJ_LOADER_UNKNOWN"
  unfolding table_index_cases mol_known traj_known
  by (auto simp add: table_ext_def table_mol_loader_def table_traj_loader_def eq_ic)

lemma preload_mol_loader:
  "mol_loader (fst (mol_loader_preload_check P st l p a)) = mol_loader st"
  "traj_loader (fst (mol_loader_preload_check P st l p a)) = traj_loader st"
  by (auto simp: mol_loader_preload_check_def Let_def split: mol_loader_t.splits prod.splits)

text \<open>
  Claim C8. \<^verbatim>\<open>init_loader_state\<close> returns true exactly if it has set a molecule or a
  trajectory loader in the state, and exactly if the path has an extension that equals, up
  to letter case, the token of a table entry with a molecule or a trajectory loader. When
  it returns false, the state is the zeroed state (no loader, no argument blob, no flag)
  and the allocator is as it was.
\<close>

theorem init_loader_state_success_iff:
  "(fst (init_loader_state P file_path alloc) \<longleftrightarrow>
      (mol_loader (fst (snd (init_loader_state P file_path alloc))) \<noteq> None \<or>
       traj_loader (fst (snd (init_loader_state P file_path alloc))) \<noteq> None)) \<and>
   (fst (init_loader_state P file_path alloc) \<longleftrightarrow>
      (\<exists>ext. extract_ext file_path = Some ext \<and>
         (\<exists>i<NUM_ENTRIES. str_eq_ignore_case ext (table_ext ! i) \<and>
            (table_mol_loader ! i \<noteq> None \<or> table_traj_loader ! i \<noteq> None)))) \<and>
   (\<not> fst (init_loader_state P file_path alloc) \<longrightarrow>
      snd (init_loader_state P file_path alloc) = (LoaderState_zero, alloc))"
proof (cases "extract_ext file_path")
  case None
  then show ?thesis
    by (simp add: init_loader_state_def LoaderState_zero_def)
next
  case (Some ext)
  let ?st = "LoaderState_zero\<lparr>mol_loader := mol_loader_api (mol_loader_from_ext ext)\<rparr>"
  have a: "fst (init_loader_state P file_path alloc) \<longleftrightarrow>
      mol_loader_from_ext ext \<noteq> MOL_LOADER_UNKNOWN \<or>
      traj_loader_from_ext ext \<noteq> TRAJ_LOADER_UNKNOWN"
    using Some by (simp add: init_loader_state_def Let_def split: prod.splits)
  have b: "mol_loader (fst (snd (init_loader_state P file_path alloc))) =
      mol_loader_api (mol_loader_from_ext ext)"
    using Some preload_mol_loader(1)[of P ?st "mol_loader_from_ext ext" file_path alloc]
    by (auto simp add: init_loader_state_def Let_def traj_loader_preload_check_def
        LoaderState_zero_def split: prod.splits)
  have c: "traj_loader (fst (snd (init_loader_state P file_path alloc))) =
      traj_loader_api (traj_loader_from_ext ext)"
    using Some preload_mol_loader(2)[of P ?st "mol_loader_from_ext ext" file_path alloc]
    by (auto simp add: init_loader_state_def Let_def traj_loader_preload_check_def
        LoaderState_zero_def split: prod.splits)
  have d: "\<not> fst (init_loader_state P file_path alloc) \<Longrightarrow>
      snd (init_loader_state P file_path alloc) = (LoaderState_zero, alloc)"
    using Some by (simp add: init_loader_state_def Let_def split: prod.splits)
  have e: "(\<exists>x. extract_ext file_path = Some x \<and>
         (\<exists>i<NUM_ENTRIES. str_eq_ignore_case x (table_ext ! i) \<and>
            (table_mol_loader ! i \<noteq> None \<or> table_traj_loader ! i \<noteq> None))) \<longleftrightarrow>
      mol_loader_from_ext ext \<noteq> MOL_LOADER_UNKNOWN \<or>
      traj_loader_from_ext ext \<noteq> TRAJ_LOADER_UNKNOWN"
    unfolding registered_iff Some by blast
  show ?thesis
  proof (intro conjI)
    show "fst (init_loader_state P file_path alloc) \<longleftrightarrow>
      (mol_loader (fst (snd (init_loader_state P file_path alloc))) \<noteq> None \<or>
       traj_loader (fst (snd (init_loader_state P file_path alloc))) \<noteq> None)"
      unfolding a b c mol_api_some traj_api_some by (rule refl)
    show "fst (init_loader_state P file_path alloc) \<longleftrightarrow>
      (\<exists>ext. extract_ext file_path = Some ext \<and>
         (\<exists>i<NUM_ENTRIES. str_eq_ignore_case ext (table_ext ! i) \<and>
            (table_mol_loader ! i \<noteq> None \<or> table_traj_loader ! i \<noteq> None)))"
      unfolding e a by (rule refl)
    show "\<not> fst (init_loader_state P file_path alloc) \<longrightarrow>
      snd (init_loader_state P file_path alloc) = (LoaderState_zero, alloc)"
      using d by blast
  qed
qed

text \<open>
  The theorem at two paths: \<^verbatim>\<open>run.XTC\<close> has a known extension in upper case and
  succeeds with the xtc trajectory loader; \<^verbatim>\<open>notes.txt\<close> fails and leaves the zeroed
  state and the allocator untouched.
\<close>

theorem init_loader_state_success_iff_witness:
  "fst (init_loader_state ex_platform ''run.XTC'' ex_alloc) \<and>
   traj_loader (fst (snd (init_loader_state ex_platform ''run.XTC'' ex_alloc))) =
     Some md_xtc_trajectory_loader \<and>
   \<not> fst (init_loader_state ex_platform ''notes.txt'' ex_alloc) \<and>
   snd (init_loader_state ex_platform ''notes.txt'' ex_alloc) = (LoaderState_zero, ex_alloc)"
proof -
  have e: "extract_ext ''run.XTC'' = Some ''XTC''" "extract_ext ''notes.txt'' = Some ''txt''"
    by (simp_all add: extract_ext_def)
  have m: "mol_loader_from_ext ''XTC'' = MOL_LOADER_UNKNOWN"
    "traj_loader_from_ext ''XTC'' = TRAJ_LOADER_XTC"
    "mol_loader_from_ext ''txt'' = MOL_LOADER_UNKNOWN"
    "traj_loader_from_ext ''txt'' = TRAJ_LOADER_UNKNOWN"
    by code_simp+
  have t: "traj_loader (fst (snd (init_loader_state ex_platform ''run.XTC'' ex_alloc))) =
     Some md_xtc_trajectory_loader"
    by (simp add: init_loader_state_def e m traj_loader_preload_check_def LoaderState_zero_def)
  have f: "\<not> fst (init_loader_state ex_platform ''notes.txt'' ex_alloc)"
    by (simp add: init_loader_state_def e m)
  show ?thesis
    using init_loader_state_success_iff[of ex_platform "''run.XTC''" ex_alloc]
      init_loader_state_success_iff[of ex_platform "''notes.txt''" ex_alloc] t f
    by simp
qed

lemma table_flags_zero: "i < NUM_ENTRIES \<Longrightarrow> table_flags ! i = 0"
  by (simp add: table_flags_def)

lemma loader_requires_dialogue_loop_False: "loader_requires_dialogue_loop l i = False"
proof (induction l i rule: loader_requires_dialogue_loop.induct)
  case (1 loader i)
  show ?case
  proof (cases "i < NUM_ENTRIES")
    case True
    then show ?thesis using 1
      by (subst loader_requires_dialogue_loop.simps) (simp add: table_flags_zero)
  next
    case False
    then show ?thesis by (subst loader_requires_dialogue_loop.simps) simp
  qed
qed

lemma preload_flags:
  "flags st = 0 \<Longrightarrow>
   (flags (fst (mol_loader_preload_check P st l p a)) AND LoaderStateFlag_RequiresDialogue \<noteq> 0) \<longleftrightarrow>
   (l = MOL_LOADER_LAMMPS \<and> md_lammps_atom_format_from_file P p = MD_LAMMPS_ATOM_FORMAT_UNKNOWN)"
  by (cases l) (simp_all add: mol_loader_preload_check_def LoaderStateFlag_RequiresDialogue_def
      Let_def split: prod.splits)

text \<open>
  Claim C10. \<^verbatim>\<open>load::mol::loader_requires_dialogue\<close> returns false for every loader
  pointer, null or not, in the table or not: the flags of the table are all zero. The
  flag \<^verbatim>\<open>LoaderStateFlag_RequiresDialogue\<close> of the state that
  \<^verbatim>\<open>init_loader_state\<close> fills is set exactly if the extension selects the LAMMPS
  molecule loader and the atom format of the file is unknown.
\<close>

theorem loader_requires_dialogue_never:
  "load_mol_loader_requires_dialogue loader = False \<and>
   ((flags (fst (snd (init_loader_state P file_path alloc))) AND LoaderStateFlag_RequiresDialogue \<noteq> 0)
     \<longleftrightarrow> (\<exists>ext. extract_ext file_path = Some ext \<and>
                mol_loader_from_ext ext = MOL_LOADER_LAMMPS \<and>
                md_lammps_atom_format_from_file P file_path = MD_LAMMPS_ATOM_FORMAT_UNKNOWN))"
proof
  show "load_mol_loader_requires_dialogue loader = False"
    by (simp add: load_mol_loader_requires_dialogue_def loader_requires_dialogue_loop_False
        split: option.split)
next
  show "(flags (fst (snd (init_loader_state P file_path alloc))) AND LoaderStateFlag_RequiresDialogue \<noteq> 0)
     \<longleftrightarrow> (\<exists>ext. extract_ext file_path = Some ext \<and>
                mol_loader_from_ext ext = MOL_LOADER_LAMMPS \<and>
                md_lammps_atom_format_from_file P file_path = MD_LAMMPS_ATOM_FORMAT_UNKNOWN)"
  proof (cases "extract_ext file_path")
    case None
    then show ?thesis by (simp add: init_loader_state_def LoaderState_zero_def)
  next
    case (Some ext)
    let ?st = "LoaderState_zero\<lparr>mol_loader := mol_loader_api (mol_loader_from_ext ext)\<rparr>"
    have z: "flags ?st = 0" by (simp add: LoaderState_zero_def)
    have f: "flags (fst (snd (init_loader_state P file_path alloc))) =
        (if mol_loader_from_ext ext \<noteq> MOL_LOADER_UNKNOWN
         then flags (fst (mol_loader_preload_check P ?st (mol_loader_from_ext ext) file_path alloc))
         else 0)"
      using Some
      by (simp add: init_loader_state_def traj_loader_preload_check_def Let_def LoaderState_zero_def
          split: prod.splits)
    show ?thesis
      unfolding f using preload_flags[OF z, of P "mol_loader_from_ext ext" file_path alloc] Some
      by auto
  qed
qed

theorem loader_requires_dialogue_never_witness:
  "load_mol_loader_requires_dialogue (Some md_lammps_molecule_api) = False \<and>
   flags (fst (snd (init_loader_state ex_platform ''system.data'' ex_alloc))) AND
     LoaderStateFlag_RequiresDialogue \<noteq> 0"
proof -
  have e: "extract_ext ''system.data'' = Some ''data''"
    by (simp add: extract_ext_def)
  have m: "mol_loader_from_ext ''data'' = MOL_LOADER_LAMMPS"
    by code_simp
  have u: "md_lammps_atom_format_from_file ex_platform ''system.data'' = MD_LAMMPS_ATOM_FORMAT_UNKNOWN"
    by (simp add: ex_platform_def)
  show ?thesis
    using loader_requires_dialogue_never[of "Some md_lammps_molecule_api" ex_platform
        "''system.data''" ex_alloc] e m u
    by simp
qed

text \<open>
  Claim C4. \<^verbatim>\<open>load::mol::loader_from_ext\<close> and \<^verbatim>\<open>load::traj::loader_from_ext\<close>
  compare with \<^verbatim>\<open>str_eq\<close>: the registered tokens \<^verbatim>\<open>pdb\<close> and \<^verbatim>\<open>xtc\<close> are
  found, the same extensions in upper case are not, while the enumerator lookups that
  \<^verbatim>\<open>init_loader_state\<close> uses, which compare with \<^verbatim>\<open>str_eq_ignore_case\<close>, find
  both spellings.
\<close>

theorem loader_from_ext_upper_case:
  "load_mol_loader_from_ext ''pdb'' = Some md_pdb_molecule_api \<and>
   load_mol_loader_from_ext ''PDB'' = None \<and>
   load_traj_loader_from_ext ''xtc'' = Some md_xtc_trajectory_loader \<and>
   load_traj_loader_from_ext ''XTC'' = None \<and>
   mol_loader_api (mol_loader_from_ext ''PDB'') = Some md_pdb_molecule_api \<and>
   traj_loader_api (traj_loader_from_ext ''XTC'') = Some md_xtc_trajectory_loader"
  by code_simp

section \<open>Properties of the trajectory facade\<close>

lemma find_key_Some:
  "find_key slots k n j = Some (i, e) \<Longrightarrow>
   j \<le> i \<and> i < j + n \<and> slots i = Some e \<and> lt_key e = k"
proof (induction n arbitrary: j)
  case 0
  then show ?case by simp
next
  case (Suc n)
  show ?case
  proof (cases "slots j")
    case None
    with Suc.prems have "find_key slots k n (Suc j) = Some (i, e)" by simp
    from Suc.IH[OF this] show ?thesis by simp
  next
    case (Some e')
    show ?thesis
    proof (cases "lt_key e' = k")
      case True
      with Suc.prems Some show ?thesis by simp
    next
      case False
      with Suc.prems Some have "find_key slots k n (Suc j) = Some (i, e)" by simp
      from Suc.IH[OF this] show ?thesis by simp
    qed
  qed
qed

lemma find_loaded_trajectory_Some:
  "find_loaded_trajectory g k = Some (i, e) \<Longrightarrow>
   i < num_loaded_trajectories g \<and> loaded_trajectories g i = Some e \<and> lt_key e = k"
  using find_key_Some[of "loaded_trajectories g" k "num_loaded_trajectories g" 0 i e]
  by (simp add: find_loaded_trajectory_def)

lemma find_key_None:
  "(\<And>i e. j \<le> i \<Longrightarrow> i < j + n \<Longrightarrow> slots i = Some e \<Longrightarrow> lt_key e \<noteq> k) \<Longrightarrow>
   find_key slots k n j = None"
proof (induction n arbitrary: j)
  case 0
  then show ?case by simp
next
  case (Suc n)
  have r: "find_key slots k n (Suc j) = None"
  proof (rule Suc.IH)
    fix i e
    assume "Suc j \<le> i" "i < Suc j + n" "slots i = Some e"
    then show "lt_key e \<noteq> k" using Suc.prems[of i e] by simp
  qed
  show ?case
  proof (cases "slots j")
    case None
    with r show ?thesis by simp
  next
    case (Some e')
    with Suc.prems[of j e'] have "lt_key e' \<noteq> k" by simp
    with Some r show ?thesis by simp
  qed
qed

lemma recenter_frame_empty: "md_bitfield_empty bf \<Longrightarrow> recenter_frame M mol bf fd = fd"
  by (simp add: recenter_frame_def Let_def)

lemma deperiodize_frame_off: "deperiodize_frame M mol False fd = fd"
  by (simp add: deperiodize_frame_def Let_def)

text \<open>
  A call with an index in range does not depend on the assertions, and neither does any
  call without them.
\<close>

lemma decode_frame_data_miss:
  assumes "\<not> asserts \<or> (0 \<le> idx \<and> idx < int (traj_num_frames (lt_traj lt)))"
    and "md_frame_cache_find (lt_cache lt) idx = None"
    and "traj_decode_frame_data (lt_traj lt) (traj_fetch_frame_data (lt_traj lt) idx) = (ok, fd)"
  shows "returned (decode_frame_data asserts M (Some lt) idx 8) =
     Some (ok, if ok then Some (copy_out (deperiodize_frame M (lt_mol lt) (lt_deperiodize lt)
                   (recenter_frame M (lt_mol lt) (lt_recenter_target lt) fd))) else None)"
  using assms by (auto simp add: decode_frame_data_def returned_def Let_def)

lemma decode_frame_data_hit:
  assumes "\<not> asserts \<or> (0 \<le> idx \<and> idx < int (traj_num_frames (lt_traj lt)))"
    and "md_frame_cache_find (lt_cache lt) idx = Some fd"
  shows "decode_frame_data asserts M (Some lt) idx 8 = Inr (True, Some (copy_out fd), lt)"
  using assms by (auto simp add: decode_frame_data_def)

lemma ex_entry_simps:
  "lt_recenter_target (ex_entry fl) = []" "lt_deperiodize (ex_entry fl) = False"
  "lt_traj (ex_entry fl) = ex_traj fl" "lt_cache (ex_entry fl) = \<lparr>cache_capacity = 3, cache_slots = []\<rparr>"
  "lt_mol (ex_entry fl) = ex_mol" "lt_key (ex_entry fl) = 1"
  by (simp_all add: ex_entry_def md_bitfield_init_def md_frame_cache_init_def)

lemma ex_find_opened:
  "find_loaded_trajectory
     \<lparr>loaded_trajectories = (\<lambda>i. None)(0 := Some e), num_loaded_trajectories = 1,
      live_backends = b, handle_inst = h\<rparr> (lt_key e) = Some (0, e)"
  by (simp add: find_loaded_trajectory_def)

lemma ex_targeted_eq:
  "ex_targeted =
     \<lparr>loaded_trajectories = (\<lambda>i. None)(0 := Some ((ex_entry 0)\<lparr>lt_recenter_target := [True]\<rparr>)),
      num_loaded_trajectories = 1, live_backends = [7], handle_inst = (\<lambda>h. None)(1 := Some 0)\<rparr>"
  using ex_find_opened[of "ex_entry 0" "[7]" "(\<lambda>h. None)(1 := Some 0)"]
  by (simp add: ex_targeted_def set_recenter_target_def ex_opened_def
      ex_entry_simps md_bitfield_copy_def)

lemma ex_recenter: "recenter_frame exact_math ex_mol [True] (ex_frame 0) = ex_recentered"
  by (simp add: recenter_frame_def ex_frame_def md_bitfield_empty_def md_bitfield_popcount_def
      md_bitfield_extract_indices_def exact_math_def vec3_set1_def vec3_set_def vec3_neg_def
      vec3_batch_translate_inplace_def translate_array_def ex_recentered_def Let_def)

lemma ex_loaded_eq:
  "ex_loaded =
     \<lparr>loaded_trajectories = (\<lambda>i. None)(0 := Some
        ((ex_entry 0)\<lparr>lt_recenter_target := [True],
                      lt_cache := \<lparr>cache_capacity = 3, cache_slots = [(0, ex_recentered)]\<rparr>\<rparr>)),
      num_loaded_trajectories = 1, live_backends = [7], handle_inst = (\<lambda>h. None)(1 := Some 0)\<rparr>"
  by (simp add: ex_loaded_def ex_targeted_eq md_trajectory_load_frame_def
      ex_entry_simps load_frame_def decode_frame_data_def ex_traj_def md_frame_cache_find_def
      ex_recenter deperiodize_frame_off md_frame_cache_reserve_def Let_def)

lemma ex_cleared_eq:
  "ex_cleared =
     \<lparr>loaded_trajectories = (\<lambda>i. None)(0 := Some
        ((ex_entry 0)\<lparr>lt_recenter_target := [],
                      lt_cache := \<lparr>cache_capacity = 3, cache_slots = [(0, ex_recentered)]\<rparr>\<rparr>)),
      num_loaded_trajectories = 1, live_backends = [7], handle_inst = (\<lambda>h. None)(1 := Some 0)\<rparr>"
  using ex_find_opened[of "(ex_entry 0)\<lparr>lt_recenter_target := [True],
                      lt_cache := \<lparr>cache_capacity = 3, cache_slots = [(0, ex_recentered)]\<rparr>\<rparr>"
      "[7]" "(\<lambda>h. None)(1 := Some 0)"]
  by (simp add: ex_cleared_def ex_loaded_eq set_recenter_target_def
      ex_entry_simps md_bitfield_clear_def) (simp add: ex_entry_def)

lemma copy_out_ex: "copy_out ex_recentered = ex_recentered" "copy_out (ex_frame fl) = ex_frame fl"
  by (simp_all add: copy_out_def ex_recentered_def ex_frame_def)

lemma ex_open:
  "open_file asserts ex_platform ex_create ex_globals ''run.xtc'' None ex_mol ex_alloc =
     Inr (Some 1, \<lparr>alloc_next = 2, alloc_live = [(1, 40)]\<rparr>, ex_opened)"
proof -
  have l: "load_traj_loader_from_ext ''xtc'' = Some md_xtc_trajectory_loader"
    by code_simp
  show ?thesis
    by (simp add: open_file_def resolve_loader_def extract_ext_def l ex_create_def ex_traj_def
        ex_mol_def ex_globals_def ex_alloc_def md_alloc_def alloc_loaded_trajectory_def
        find_loaded_trajectory_def ARRAY_SIZE_loaded_trajectories_def ex_platform_def CLAMP_def
        MIN_u64_def MAX_u64_def MEGABYTES_def ex_opened_def ex_entry_def Let_def)
qed


text \<open>
  Claim C1, as stated, fails on a handle that has a frame in its cache from the time a
  recenter target was set. Opening \<^verbatim>\<open>run.xtc\<close> gives \<open>ex_opened\<close>; after
  \<^verbatim>\<open>set_recenter_target\<close> on atom 0, \<^verbatim>\<open>load_frame\<close> of frame 0 and
  \<^verbatim>\<open>set_recenter_target(null)\<close> the recenter target is empty and deperiodize is off,
  yet decoding frame 0 returns the recentered coordinates from the cache, not the
  coordinates of the backend.
\<close>

theorem decode_frame_data_stale_counterexample:
  "open_file True ex_platform ex_create ex_globals ''run.xtc'' None ex_mol ex_alloc =
     Inr (Some 1, \<lparr>alloc_next = 2, alloc_live = [(1, 40)]\<rparr>, ex_opened) \<and>
   handle_inst ex_cleared 1 = Some 0 \<and>
   md_bitfield_empty (lt_recenter_target (the (loaded_trajectories ex_cleared 0))) \<and>
   \<not> lt_deperiodize (the (loaded_trajectories ex_cleared 0)) \<and>
   returned (decode_frame_data True exact_math (loaded_trajectories ex_cleared 0) 0 8) =
     Some (True, Some ((ex_frame 0)\<lparr>frame_x := [0, 3], frame_y := [0, 3], frame_z := [0, 3]\<rparr>)) \<and>
   traj_decode_frame_data (lt_traj (the (loaded_trajectories ex_cleared 0)))
     (traj_fetch_frame_data (lt_traj (the (loaded_trajectories ex_cleared 0))) 0) =
     (True, (ex_frame 0)\<lparr>frame_x := [1, 4], frame_y := [2, 5], frame_z := [3, 6]\<rparr>)"
  by (simp add: ex_open ex_cleared_eq ex_entry_simps md_bitfield_empty_def decode_frame_data_def
      ex_traj_def md_frame_cache_find_def returned_def copy_out_ex)
    (simp add: ex_recentered_def ex_frame_def)

text \<open>
  Claim C1, amended. For an entry with an empty recenter target and deperiodize off and
  a frame index in range: if the frame is not in the cache, \<^verbatim>\<open>decode_frame_data\<close>
  (and \<^verbatim>\<open>load_frame\<close>, which is the same call) returns the backend's result flag and,
  on success, exactly the header and the coordinates the backend decoded for that index;
  if the frame is in the cache, it returns the cached frame as it is. This holds with
  and without assertions.
\<close>

theorem decode_frame_data_plain:
  assumes "md_bitfield_empty (lt_recenter_target lt)" and "\<not> lt_deperiodize lt"
    and "0 \<le> idx" and "idx < int (traj_num_frames (lt_traj lt))"
  shows "(md_frame_cache_find (lt_cache lt) idx = None \<longrightarrow>
            returned (decode_frame_data asserts M (Some lt) idx 8) =
              (case traj_decode_frame_data (lt_traj lt) (traj_fetch_frame_data (lt_traj lt) idx) of
                 (ok, fd) \<Rightarrow> Some (ok, if ok then Some (copy_out fd) else None)) \<and>
            load_frame asserts M (Some lt) idx = decode_frame_data asserts M (Some lt) idx 8) \<and>
         (\<forall>fd. md_frame_cache_find (lt_cache lt) idx = Some fd \<longrightarrow>
            returned (decode_frame_data asserts M (Some lt) idx 8) =
              Some (True, Some (copy_out fd)))"
proof (intro conjI impI allI)
  have range: "\<not> asserts \<or> (0 \<le> idx \<and> idx < int (traj_num_frames (lt_traj lt)))"
    using assms(3,4) by simp
  {
    assume miss: "md_frame_cache_find (lt_cache lt) idx = None"
    obtain ok fd where d:
      "traj_decode_frame_data (lt_traj lt) (traj_fetch_frame_data (lt_traj lt) idx) = (ok, fd)"
      by (cases "traj_decode_frame_data (lt_traj lt) (traj_fetch_frame_data (lt_traj lt) idx)")
    show "returned (decode_frame_data asserts M (Some lt) idx 8) =
              (case traj_decode_frame_data (lt_traj lt) (traj_fetch_frame_data (lt_traj lt) idx) of
                 (ok, fd) \<Rightarrow> Some (ok, if ok then Some (copy_out fd) else None))"
      using decode_frame_data_miss[OF range miss d, of M] assms(1,2)
      by (simp add: d recenter_frame_empty deperiodize_frame_off)
  }
  show "load_frame asserts M (Some lt) idx = decode_frame_data asserts M (Some lt) idx 8"
    by (simp add: load_frame_def)
  fix fd assume "md_frame_cache_find (lt_cache lt) idx = Some fd"
  then show "returned (decode_frame_data asserts M (Some lt) idx 8) =
      Some (True, Some (copy_out fd))"
    using decode_frame_data_hit[OF range, of fd M] by (simp add: returned_def)
qed

text \<open>
  The theorem on the fresh entry \<open>ex_entry 0\<close> (frame 0 is not cached: the backend's
  frame is returned) and on the entry of \<open>ex_cleared\<close> (frame 0 is cached: the cached
  frame is returned).
\<close>

theorem decode_frame_data_plain_witness:
  "returned (decode_frame_data True exact_math (Some (ex_entry 0)) 0 8) =
     Some (True, Some (ex_frame 0)) \<and>
   load_frame True exact_math (Some (ex_entry 0)) 0 =
     decode_frame_data True exact_math (Some (ex_entry 0)) 0 8 \<and>
   returned (decode_frame_data False exact_math (loaded_trajectories ex_cleared 0) 0 8) =
     Some (True, Some ex_recentered)"
proof -
  have miss: "returned (decode_frame_data True exact_math (Some (ex_entry 0)) 0 8) =
      Some (True, Some (ex_frame 0)) \<and>
    load_frame True exact_math (Some (ex_entry 0)) 0 =
      decode_frame_data True exact_math (Some (ex_entry 0)) 0 8"
    using decode_frame_data_plain[of "ex_entry 0" 0 True exact_math]
    by (simp add: ex_entry_simps md_bitfield_empty_def ex_traj_def md_frame_cache_find_def
        copy_out_ex)
  have e: "loaded_trajectories ex_cleared 0 = Some (the (loaded_trajectories ex_cleared 0))"
    by (simp add: ex_cleared_eq)
  have hit: "returned (decode_frame_data False exact_math
        (Some (the (loaded_trajectories ex_cleared 0))) 0 8) = Some (True, Some ex_recentered)"
    using decode_frame_data_plain[of "the (loaded_trajectories ex_cleared 0)" 0 False exact_math]
    by (simp add: ex_cleared_eq ex_entry_simps md_bitfield_empty_def ex_traj_def
        md_frame_cache_find_def copy_out_ex)
  from miss hit e show ?thesis by simp
qed

text \<open>
  \<^verbatim>\<open>clear_cache\<close> on a registered handle empties the cache of its entry, so that every
  frame is decoded anew by the next call on that entry.
\<close>

lemma clear_cache_all_miss:
  assumes "find_loaded_trajectory g h = Some (i, e)"
  shows "fst (clear_cache g h) \<and>
         (\<exists>e'. loaded_trajectories (snd (clear_cache g h)) i = Some e' \<and>
               md_frame_cache_find (lt_cache e') idx = None)"
  using assms by (simp add: clear_cache_def md_frame_cache_clear_def md_frame_cache_find_def)

lemma filter_nth_snoc:
  "filter (\<lambda>i. (xs @ [b]) ! i) [0..<length xs] = filter (\<lambda>i. xs ! i) [0..<length xs]"
  by (rule filter_cong) (simp_all add: nth_append)

lemma popcount_indices:
  "md_bitfield_popcount bf = length (md_bitfield_extract_indices bf)"
proof (induction bf rule: rev_induct)
  case Nil
  then show ?case by (simp add: md_bitfield_popcount_def md_bitfield_extract_indices_def)
next
  case (snoc b bf)
  then show ?case
    by (simp add: md_bitfield_popcount_def md_bitfield_extract_indices_def filter_nth_snoc)
qed

lemma popcount_pos_nonempty: "0 < md_bitfield_popcount bf \<Longrightarrow> \<not> md_bitfield_empty bf"
  by (auto simp: md_bitfield_popcount_def md_bitfield_empty_def)

lemma spec_box_ext_eq:
  "mat3_mul_vec3 M (basis (unit_cell (header fd))) (vec3_set1 (f_one M)) = spec_box_ext M fd"
  by (simp add: spec_box_ext_def vec3_set1_def)

lemma spec_half_box_eq: "vec3_mul_f M (spec_box_ext M fd) (f_half M) = spec_half_box M fd"
  by (simp add: spec_half_box_def vec3_mul_f_def)

lemma recenter_frame_spec:
  assumes "0 < md_bitfield_popcount bf"
  shows "recenter_frame M mol bf fd =
           vec3_batch_translate_inplace M fd (num_atoms (header fd)) (spec_translation M mol bf fd)"
proof -
  let ?ix = "md_bitfield_extract_indices bf"
  have len: "length ?ix = md_bitfield_popcount bf" by (simp add: popcount_indices)
  have ne: "\<not> md_bitfield_empty bf" using assms by (rule popcount_pos_nonempty)
  show ?thesis
  proof (cases "md_bitfield_popcount bf = 1")
    case True
    then obtain i where ix: "?ix = [i]"
      using len by (cases ?ix) auto
    show ?thesis
      using True ne ix
      by (simp add: recenter_frame_def spec_translation_def spec_com_def Let_def spec_box_ext_eq
          spec_half_box_eq vec3_set_def vec3_sub_def vec3_neg_def split: prod.splits)
  next
    case False
    then have "length ?ix \<noteq> 1" using len by simp
    have sc: "spec_com M mol bf fd =
        (if cell_flags (unit_cell (header fd)) \<noteq> 0 then
             vec3_deperiodize M
               (md_util_compute_com_ortho M (frame_x fd) (frame_y fd) (frame_z fd) (atom_mass mol)
                  ?ix (length ?ix) (spec_box_ext M fd))
               (spec_half_box M fd) (spec_box_ext M fd)
           else
             md_util_com_compute M (frame_x fd) (frame_y fd) (frame_z fd) (atom_mass mol)
               ?ix (length ?ix))"
      using \<open>length ?ix \<noteq> 1\<close> unfolding spec_com_def
      by (cases ?ix rule: list.exhaust; simp split: list.splits)
    show ?thesis
      using False ne assms
      by (simp add: recenter_frame_def spec_translation_def sc Let_def spec_box_ext_eq
          spec_half_box_eq vec3_sub_def vec3_neg_def len split: prod.splits)
  qed
qed

lemma translate_array_nth:
  "k < length xs \<Longrightarrow>
   translate_array M xs n t ! k = (if k < n then f_add M (xs ! k) t else xs ! k)"
  by (auto simp: translate_array_def nth_append min_def)

lemma translate_array_length: "length (translate_array M xs n t) = length xs"
  by (simp add: translate_array_def)

text \<open>
  Claim C2. When a frame is decoded (a cache miss and a successful backend decode) under
  a recenter target with at least one set bit, the frame stored and returned is the
  backend's frame with every atom \<open>k < num_atoms\<close> translated by the vector of the
  specification (\<open>spec_translation\<close>: \<open>box_ext / 2 - com\<close> with a unit cell, \<open>- com\<close>
  without, where \<open>com\<close> is the position of the single target atom, or else the periodic
  or the mass-weighted center of mass), before the optional deperiodization.
\<close>

theorem decode_frame_data_recenter:
  assumes "0 < md_bitfield_popcount (lt_recenter_target lt)"
    and "0 \<le> idx" and "idx < int (traj_num_frames (lt_traj lt))"
    and "md_frame_cache_find (lt_cache lt) idx = None"
    and "traj_decode_frame_data (lt_traj lt) (traj_fetch_frame_data (lt_traj lt) idx) = (True, fd)"
    and "spec_translation M (lt_mol lt) (lt_recenter_target lt) fd = (tx, ty, tz)"
    and "fd' = recenter_frame M (lt_mol lt) (lt_recenter_target lt) fd"
  shows "returned (decode_frame_data asserts M (Some lt) idx 8) =
           Some (True, Some (copy_out (deperiodize_frame M (lt_mol lt) (lt_deperiodize lt) fd'))) \<and>
         header fd' = header fd \<and>
         (\<forall>k < num_atoms (header fd).
            (k < length (frame_x fd) \<longrightarrow> frame_x fd' ! k = f_add M (frame_x fd ! k) tx) \<and>
            (k < length (frame_y fd) \<longrightarrow> frame_y fd' ! k = f_add M (frame_y fd ! k) ty) \<and>
            (k < length (frame_z fd) \<longrightarrow> frame_z fd' ! k = f_add M (frame_z fd ! k) tz))"
proof -
  have range: "\<not> asserts \<or> (0 \<le> idx \<and> idx < int (traj_num_frames (lt_traj lt)))"
    using assms(2,3) by simp
  have r: "fd' = vec3_batch_translate_inplace M fd (num_atoms (header fd)) (tx, ty, tz)"
    using recenter_frame_spec[OF assms(1), of M "lt_mol lt" fd] assms(6,7) by simp
  have d: "returned (decode_frame_data asserts M (Some lt) idx 8) =
           Some (True, Some (copy_out (deperiodize_frame M (lt_mol lt) (lt_deperiodize lt) fd')))"
    using decode_frame_data_miss[OF range assms(4,5), of M] assms(7) by simp
  have h: "header fd' = header fd"
    unfolding r by (simp add: vec3_batch_translate_inplace_def)
  have x: "frame_x fd' = translate_array M (frame_x fd) (num_atoms (header fd)) tx"
    and y: "frame_y fd' = translate_array M (frame_y fd) (num_atoms (header fd)) ty"
    and z: "frame_z fd' = translate_array M (frame_z fd) (num_atoms (header fd)) tz"
    unfolding r by (simp_all add: vec3_batch_translate_inplace_def)
  show ?thesis
    using d h by (simp add: x y z translate_array_nth)
qed

text \<open>
  The theorem on a frame with a cubic cell of length 10 and the target atom 0 at
  \<open>(1,2,3)\<close>: the translation is \<open>(4,3,2)\<close> and atom 0 lands on the box center.
\<close>

theorem decode_frame_data_recenter_witness:
  "spec_translation exact_math ex_mol [True] (ex_frame 1) = (4, 3, 2) \<and>
   returned (decode_frame_data True exact_math
               (Some ((ex_entry 1)\<lparr>lt_recenter_target := [True]\<rparr>)) 0 8) =
     Some (True, Some ((ex_frame 1)\<lparr>frame_x := [5, 8], frame_y := [5, 8], frame_z := [5, 8]\<rparr>))"
proof -
  let ?lt = "(ex_entry 1)\<lparr>lt_recenter_target := [True]\<rparr>"
  have t: "spec_translation exact_math ex_mol [True] (ex_frame 1) = (4, 3, 2)"
    by (simp add: spec_translation_def spec_com_def spec_half_box_def spec_box_ext_def
        md_bitfield_extract_indices_def exact_math_def ex_frame_def)
  have p: "0 < md_bitfield_popcount (lt_recenter_target ?lt)"
    by (simp add: md_bitfield_popcount_def)
  have m: "md_frame_cache_find (lt_cache ?lt) 0 = None"
    by (simp add: ex_entry_def md_frame_cache_find_def md_frame_cache_init_def)
  have b: "traj_decode_frame_data (lt_traj ?lt) (traj_fetch_frame_data (lt_traj ?lt) 0) =
      (True, ex_frame 1)"
    by (simp add: ex_entry_def ex_traj_def)
  have n: "(0::int) \<le> 0" "0 < int (traj_num_frames (lt_traj ?lt))"
    by (simp_all add: ex_entry_def ex_traj_def)
  have t': "spec_translation exact_math (lt_mol ?lt) (lt_recenter_target ?lt) (ex_frame 1) = (4, 3, 2)"
    using t by (simp add: ex_entry_def)
  note main = decode_frame_data_recenter[OF p n m b t' refl, of True]
  have r: "recenter_frame exact_math ex_mol [True] (ex_frame 1) =
      (ex_frame 1)\<lparr>frame_x := [5, 8], frame_y := [5, 8], frame_z := [5, 8]\<rparr>"
    by (simp add: recenter_frame_def ex_frame_def md_bitfield_empty_def md_bitfield_popcount_def
      md_bitfield_extract_indices_def exact_math_def vec3_set1_def vec3_set_def vec3_sub_def
      vec3_mul_f_def vec3_batch_translate_inplace_def translate_array_def Let_def)
  have c: "copy_out ((ex_frame 1)\<lparr>frame_x := [5, 8], frame_y := [5, 8], frame_z := [5, 8]\<rparr>) =
      (ex_frame 1)\<lparr>frame_x := [5, 8], frame_y := [5, 8], frame_z := [5, 8]\<rparr>"
    by (simp add: copy_out_def ex_frame_def)
  show ?thesis
    using main t by (simp add: ex_entry_def r c deperiodize_frame_def Let_def)
qed

lemma open_file_resolved:
  assumes "resolve_loader filename loader = Some l"
  shows "open_file asserts P create g filename loader mol alloc =
           open_file asserts P create g filename (Some l) mol alloc"
  using assms by (simp add: open_file_def resolve_loader_def)

lemma resolve_loader_Some: "resolve_loader filename (Some l) = Some l"
  by (simp add: resolve_loader_def)

lemma open_file_unresolved:
  assumes "resolve_loader filename loader = None"
  shows "open_file asserts P create g filename loader mol alloc = Inr (None, alloc, g)"
  using assms by (simp add: open_file_def)

text \<open>
  Claim C3. If the loader (given, or found by extension) creates a backend whose atom
  count differs from the molecule's, \<^verbatim>\<open>open_file\<close> returns null and leaves the
  allocator and the file-scope state as they were: the registry has no new entry and the
  backend that was created is destroyed again.
\<close>

theorem open_file_topology_mismatch:
  assumes "resolve_loader filename loader = Some l"
    and "create l filename = Some b"
    and "traj_num_atoms b \<noteq> atom_count mol"
  shows "open_file asserts P create g filename loader mol alloc = Inr (None, alloc, g)"
  unfolding open_file_resolved[OF assms(1)]
  using assms(2,3) by (simp add: open_file_def resolve_loader_Some Let_def)

theorem open_file_topology_mismatch_witness:
  "resolve_loader ''run.xtc'' None = Some md_xtc_trajectory_loader \<and>
   ex_create md_xtc_trajectory_loader ''run.xtc'' = Some (ex_traj 0) \<and>
   traj_num_atoms (ex_traj 0) = 2 \<and> atom_count (ex_mol\<lparr>atom_count := 3\<rparr>) = 3 \<and>
   open_file True ex_platform ex_create ex_opened ''run.xtc'' None (ex_mol\<lparr>atom_count := 3\<rparr>)
     ex_alloc =
     Inr (None, ex_alloc, ex_opened)"
proof -
  have l: "load_traj_loader_from_ext ''xtc'' = Some md_xtc_trajectory_loader"
    by code_simp
  have r: "resolve_loader ''run.xtc'' None = Some md_xtc_trajectory_loader"
    by (simp add: resolve_loader_def extract_ext_def l)
  have c: "ex_create md_xtc_trajectory_loader ''run.xtc'' = Some (ex_traj 0)"
    by (simp add: ex_create_def)
  have n: "traj_num_atoms (ex_traj 0) \<noteq> atom_count (ex_mol\<lparr>atom_count := 3\<rparr>)"
    by (simp add: ex_traj_def)
  show ?thesis
    using open_file_topology_mismatch[where create = ex_create and P = ex_platform and asserts = True
        and g = ex_opened and alloc = ex_alloc, OF r c n] r c
    by (simp add: ex_traj_def)
qed

lemma xtc_loader: "load_traj_loader_from_ext ''xtc'' = Some md_xtc_trajectory_loader"
  by code_simp

lemma ex_after_find_None:
  "find_loaded_trajectory ((ex_after n)\<lparr>live_backends := bs\<rparr>) (Suc n) = None"
  unfolding find_loaded_trajectory_def
  by (rule find_key_None) (auto simp add: ex_after_def split: if_splits)

lemma open_ex:
  assumes "asserts \<longrightarrow> n < 8"
  shows "open_file asserts ex_platform ex_create (ex_after n) ''run.xtc'' None ex_mol
           (ex_alloc_after n) =
         Inr (Some (Suc n), ex_alloc_after (Suc n), ex_after (Suc n))"
proof -
  have a: "alloc_loaded_trajectory asserts ((ex_after n)\<lparr>live_backends := 7 # replicate n 7\<rparr>)
      (Suc n) = Inr n"
    using assms
    by (simp add: alloc_loaded_trajectory_def ex_after_find_None
        ARRAY_SIZE_loaded_trajectories_def) (simp add: ex_after_def)
  have slots: "(\<lambda>i. if i < n then Some ((ex_entry 0)\<lparr>lt_key := Suc i\<rparr>) else None)
        (n := Some ((ex_entry 0)\<lparr>lt_key := Suc n\<rparr>)) =
      (\<lambda>i. if i < Suc n then Some ((ex_entry 0)\<lparr>lt_key := Suc i\<rparr>) else None)"
    by (auto simp add: fun_eq_iff)
  have insts: "(\<lambda>h. if Suc 0 \<le> h \<and> h \<le> n then Some (h - 1) else None)(Suc n := Some n) =
      (\<lambda>h. if Suc 0 \<le> h \<and> h \<le> Suc n then Some (h - 1) else None)"
    by (auto simp add: fun_eq_iff)
  have m: "atom_count ex_mol * 3 * 4 mod 2 ^ 64 \<noteq> 0" "traj_num_atoms (ex_traj 0) = atom_count ex_mol"
    by (simp_all add: ex_mol_def ex_traj_def)
  have g1: "(ex_after n)\<lparr>live_backends := traj_inst (ex_traj 0) # live_backends (ex_after n)\<rparr> =
      (ex_after n)\<lparr>live_backends := 7 # replicate n 7\<rparr>"
    by (simp add: ex_after_def ex_traj_def)
  have al: "md_alloc (ex_alloc_after n) (sizeof_md_trajectory_i ex_platform) =
      (Suc n, ex_alloc_after (Suc n))"
    by (simp add: md_alloc_def ex_alloc_after_def ex_platform_def)
  have fin: "(ex_after n)\<lparr>live_backends := 7 # replicate n 7,
        loaded_trajectories := (loaded_trajectories (ex_after n))
          (n := Some ((ex_entry 0)\<lparr>lt_key := Suc n\<rparr>)),
        num_loaded_trajectories := Suc n,
        handle_inst := (handle_inst (ex_after n))(Suc n := Some n)\<rparr> = ex_after (Suc n)"
    by (simp add: ex_after_def slots insts replicate_append_same)
  have r: "resolve_loader ''run.xtc'' None = Some md_xtc_trajectory_loader"
    by (simp add: resolve_loader_def extract_ext_def xtc_loader)
  have cr: "ex_create md_xtc_trajectory_loader ''run.xtc'' = Some (ex_traj 0)"
    by (simp add: ex_create_def)
  have n: "num_loaded_trajectories ((ex_after n)\<lparr>live_backends := 7 # replicate n 7\<rparr>) = n"
    by (simp add: ex_after_def)
  show ?thesis
    by (simp add: open_file_def r cr Let_def m g1 al a n fin[symmetric])
      (simp add: ex_mol_def ex_traj_def ex_platform_def CLAMP_def MIN_u64_def MAX_u64_def
        MEGABYTES_def ex_entry_def)
qed

lemma open_times_eq:
  "(asserts \<longrightarrow> n \<le> 8) \<Longrightarrow> open_times asserts n = Inr (ex_alloc_after n, ex_after n)"
proof (induction n)
  case 0
  then show ?case
    by (auto simp add: ex_alloc_def ex_globals_def ex_alloc_after_def ex_after_def fun_eq_iff)
next
  case (Suc n)
  then have ih: "open_times asserts n = Inr (ex_alloc_after n, ex_after n)"
    by (cases asserts) auto
  from Suc.prems have "asserts \<longrightarrow> n < 8" by auto
  then show ?case by (simp add: ih open_ex)
qed

lemma open_times_8: "open_times asserts 8 = Inr (ex_full_alloc, ex_full)"
  using open_times_eq[of asserts 8] by (simp add: ex_full_alloc_def ex_full_def)

text \<open>
  Claim C5. Eight calls of \<^verbatim>\<open>open_file\<close> from the empty state succeed and fill the
  table (\<open>ex_full\<close>). A ninth call on the same file does not return null in either
  build: with assertions it stops at
  \<^verbatim>\<open>ASSERT(num_loaded_trajectories < ARRAY_SIZE(loaded_trajectories))\<close> of
  \<^verbatim>\<open>alloc_loaded_trajectory\<close>; without them it returns the handle 9, counts
  \<^verbatim>\<open>num_loaded_trajectories\<close> up to 9 and has written the entry to
  \<^verbatim>\<open>loaded_trajectories[8]\<close>, behind the last element of the array. The claimed
  result, null with the table as it was, is what the call gives only when it fails for
  another reason (here: \<^verbatim>\<open>run.pdf\<close>, no loader).
\<close>

theorem open_file_ninth_open:
  "open_times True 8 = Inr (ex_full_alloc, ex_full) \<and>
   open_times False 8 = Inr (ex_full_alloc, ex_full) \<and>
   num_loaded_trajectories ex_full = ARRAY_SIZE_loaded_trajectories \<and>
   open_file True ex_platform ex_create ex_full ''run.xtc'' None ex_mol ex_full_alloc =
     Inl AssertionFailure \<and>
   open_file False ex_platform ex_create ex_full ''run.xtc'' None ex_mol ex_full_alloc =
     Inr (Some 9, ex_alloc_after 9, ex_after 9) \<and>
   num_loaded_trajectories (ex_after 9) = 9 \<and>
   loaded_trajectories (ex_after 9) ARRAY_SIZE_loaded_trajectories =
     Some ((ex_entry 0)\<lparr>lt_key := 9\<rparr>) \<and>
   open_file True ex_platform ex_create ex_full ''run.pdf'' None ex_mol ex_full_alloc =
     Inr (None, ex_full_alloc, ex_full) \<and>
   open_file False ex_platform ex_create ex_full ''run.pdf'' None ex_mol ex_full_alloc =
     Inr (None, ex_full_alloc, ex_full)"
proof -
  have r: "resolve_loader ''run.xtc'' None = Some md_xtc_trajectory_loader"
    by (simp add: resolve_loader_def extract_ext_def xtc_loader)
  have cr: "ex_create md_xtc_trajectory_loader ''run.xtc'' = Some (ex_traj 0)"
    by (simp add: ex_create_def)
  have m: "traj_num_atoms (ex_traj 0) = atom_count ex_mol"
    by (simp add: ex_mol_def ex_traj_def)
  have a: "alloc_loaded_trajectory True ((ex_after 8)\<lparr>live_backends := bs\<rparr>) k =
      Inl AssertionFailure" for bs k
    by (simp add: alloc_loaded_trajectory_def ARRAY_SIZE_loaded_trajectories_def)
      (simp add: ex_after_def)
  have t: "open_file True ex_platform ex_create ex_full ''run.xtc'' None ex_mol ex_full_alloc =
      Inl AssertionFailure"
    by (simp add: ex_full_def ex_full_alloc_def open_file_def r cr m a Let_def split: prod.splits)
  have f: "open_file False ex_platform ex_create ex_full ''run.xtc'' None ex_mol ex_full_alloc =
      Inr (Some 9, ex_alloc_after 9, ex_after 9)"
    using open_ex[of False 8] by (simp add: ex_full_def ex_full_alloc_def)
  have l2: "load_traj_loader_from_ext ''pdf'' = None"
    by code_simp
  have r2: "resolve_loader ''run.pdf'' None = None"
    by (simp add: resolve_loader_def extract_ext_def l2)
  have p: "open_file asserts ex_platform ex_create ex_full ''run.pdf'' None ex_mol ex_full_alloc =
      Inr (None, ex_full_alloc, ex_full)" for asserts
    by (simp add: open_file_def r2)
  have n: "num_loaded_trajectories ex_full = ARRAY_SIZE_loaded_trajectories"
    "num_loaded_trajectories (ex_after 9) = 9"
    "loaded_trajectories (ex_after 9) ARRAY_SIZE_loaded_trajectories =
       Some ((ex_entry 0)\<lparr>lt_key := 9\<rparr>)"
    by (simp_all add: ex_full_def ex_after_def ARRAY_SIZE_loaded_trajectories_def)
  show ?thesis
    by (simp only: open_times_8 t f p n simp_thms)
qed




lemma CLAMP_min_max: "CLAMP v lo hi = min (max v lo) hi"
  by (simp add: CLAMP_def MIN_u64_def MAX_u64_def min_def max_def)

lemma MIN_u64_min: "MIN_u64 a b = min a b"
  by (simp add: MIN_u64_def min_def)

text \<open>
  Claim C7, as stated, fails for a molecule without atoms: with a backend that also
  reports no atoms the atom counts agree, and \<^verbatim>\<open>open_file\<close> divides the cache size by
  the frame size 0, with and without assertions.
\<close>

theorem open_file_no_atoms_counterexample:
  "atom_count ex_mol0 = 0 \<and>
   open_file True ex_platform ex_create0 ex_globals ''run.xtc'' None ex_mol0 ex_alloc =
     Inl DivisionByZero \<and>
   open_file False ex_platform ex_create0 ex_globals ''run.xtc'' None ex_mol0 ex_alloc =
     Inl DivisionByZero"
proof -
  have "open_file asserts ex_platform ex_create0 ex_globals ''run.xtc'' None ex_mol0 ex_alloc =
      Inl DivisionByZero" for asserts
    by (simp add: open_file_def resolve_loader_def extract_ext_def xtc_loader ex_create0_def
        ex_traj_def ex_mol0_def ex_globals_def ex_alloc_def md_alloc_def
        alloc_loaded_trajectory_def find_loaded_trajectory_def
        ARRAY_SIZE_loaded_trajectories_def Let_def)
  then show ?thesis by (simp add: ex_mol0_def)
qed

text \<open>
  Claim C7, amended. For a molecule with at least one atom (and \<open>atom_count * 12\<close> below
  \<open>2 ^ 64\<close>), when the backend is created with the same atom count and the registry has
  room for the new handle, \<^verbatim>\<open>open_file\<close> returns the handle and registers, in the
  first free slot, an entry whose frame cache is initialised with capacity
  \<open>min num_frames (available_bytes div (atom_count * 3 * 4))\<close>, where
  \<open>available_bytes\<close> is the configured size in bytes, raised to at least 4 MiB and then
  cut to at most a quarter of the physical memory.
\<close>

theorem open_file_cache_capacity:
  assumes "resolve_loader filename loader = Some l"
    and "create l filename = Some b"
    and "traj_num_atoms b = atom_count mol"
    and "find_loaded_trajectory g (alloc_next alloc) = None"
    and "num_loaded_trajectories g < ARRAY_SIZE_loaded_trajectories"
    and "0 < atom_count mol" and "atom_count mol * 3 * 4 < 2 ^ 64"
  shows "\<exists>alloc' g' inst.
           open_file asserts P create g filename loader mol alloc =
             Inr (Some (alloc_next alloc), alloc', g') \<and>
           loaded_trajectories g' =
             (loaded_trajectories g)(num_loaded_trajectories g := Some inst) \<and>
           num_loaded_trajectories g' = Suc (num_loaded_trajectories g) \<and>
           handle_inst g' (alloc_next alloc) = Some (num_loaded_trajectories g) \<and>
           lt_key inst = alloc_next alloc \<and>
           lt_cache inst =
             md_frame_cache_init
               (min (traj_num_frames b)
                  (min (max (VIAMD_FRAME_CACHE_SIZE P * 1024 * 1024) (4 * 1024 * 1024))
                       (md_os_physical_ram P div 4)
                   div (atom_count mol * 3 * 4)))"
proof -
  have m: "12 * atom_count mol mod 18446744073709551616 = 12 * atom_count mol"
    using assms(7) by simp
  have slot: "alloc_loaded_trajectory asserts
          (g\<lparr>live_backends := traj_inst b # live_backends g\<rparr>) (alloc_next alloc) =
        Inr (num_loaded_trajectories g)"
    using assms(4,5) by (simp add: alloc_loaded_trajectory_def find_loaded_trajectory_def)
  show ?thesis
    unfolding open_file_resolved[OF assms(1)]
    using assms(2,3,6)
    apply (simp add: open_file_def resolve_loader_Some md_alloc_def slot m CLAMP_min_max
        MIN_u64_min MEGABYTES_def Let_def)
    apply (rule exI)
    apply (intro conjI)
      apply (rule refl)
     apply simp_all
    done
qed

text \<open>
  The theorem on the first \<^verbatim>\<open>open_file\<close> of \<^verbatim>\<open>run.xtc\<close> (2 atoms, 3 frames) on a
  machine with 16 GiB and a configured cache of 1024 MB: the capacity is 3.
\<close>

theorem open_file_cache_capacity_witness:
  "\<exists>alloc' g' inst.
     open_file True ex_platform ex_create ex_globals ''run.xtc'' None ex_mol ex_alloc =
       Inr (Some 1, alloc', g') \<and>
     loaded_trajectories g' = (\<lambda>i. None)(0 := Some inst) \<and>
     num_loaded_trajectories g' = 1 \<and> handle_inst g' 1 = Some 0 \<and> lt_key inst = 1 \<and>
     lt_cache inst = \<lparr>cache_capacity = 3, cache_slots = []\<rparr>"
proof -
  have r: "resolve_loader ''run.xtc'' None = Some md_xtc_trajectory_loader"
    by (simp add: resolve_loader_def extract_ext_def xtc_loader)
  have c: "ex_create md_xtc_trajectory_loader ''run.xtc'' = Some (ex_traj 0)"
    by (simp add: ex_create_def)
  have n: "traj_num_atoms (ex_traj 0) = atom_count ex_mol"
    by (simp add: ex_traj_def ex_mol_def)
  have f: "find_loaded_trajectory ex_globals (alloc_next ex_alloc) = None"
    by (simp add: find_loaded_trajectory_def ex_globals_def)
  have k: "num_loaded_trajectories ex_globals < ARRAY_SIZE_loaded_trajectories"
    by (simp add: ex_globals_def ARRAY_SIZE_loaded_trajectories_def)
  have p: "0 < atom_count ex_mol" "atom_count ex_mol * 3 * 4 < 2 ^ 64"
    by (simp_all add: ex_mol_def)
  have v: "min (traj_num_frames (ex_traj 0))
                  (min (max (VIAMD_FRAME_CACHE_SIZE ex_platform * 1024 * 1024) (4 * 1024 * 1024))
                       (md_os_physical_ram ex_platform div 4)
                   div (atom_count ex_mol * 3 * 4)) = 3"
    by (simp add: ex_traj_def ex_platform_def ex_mol_def)
  show ?thesis
    using open_file_cache_capacity[where create = ex_create and P = ex_platform
        and g = ex_globals and alloc = ex_alloc and asserts = True, OF r c n f k p]
    unfolding v by (simp add: ex_alloc_def ex_globals_def md_frame_cache_init_def)
qed





text \<open>
  What the amended claim leaves out. Two trajectories are open and the first handle is
  closed (\<open>ex_closed\<close>): \<^verbatim>\<open>remove_loaded_trajectory\<close> copies the entry of handle 2
  from slot 1 to slot 0, where the key is found from now on, while the member
  \<^verbatim>\<open>inst\<close> of handle 2 still points to slot 1. A recenter target set on handle 2
  changes slot 0; a frame loaded through handle 2 is decoded on slot 1 and comes out
  as the backend gave it.
\<close>

lemma stale_inst_after_close:
  "close True (ex_after 2) 1 = Inr (True, ex_closed) \<and>
   map_option fst (find_loaded_trajectory ex_closed 2) = Some 0 \<and>
   handle_inst ex_closed 2 = Some 1 \<and>
   fst (set_recenter_target ex_closed 2 (Some [True])) \<and>
   returned (md_trajectory_load_frame True exact_math
               (snd (set_recenter_target ex_closed 2 (Some [True]))) 2 0) =
     Some (True, Some ((ex_frame 0)\<lparr>frame_x := [1, 4], frame_y := [2, 5], frame_z := [3, 6]\<rparr>))"
proof -
  have f1: "find_loaded_trajectory (ex_after 2) (Suc 0) = Some (0, ex_entry 0)"
    by (simp add: find_loaded_trajectory_def ex_after_def ex_entry_def numeral_2_eq_2)
  have cl: "close True (ex_after 2) 1 =
      Inr (True,
        \<lparr>loaded_trajectories =
           (\<lambda>i. if i < 2 then Some ((ex_entry 0)\<lparr>lt_key := 2\<rparr>) else None),
         num_loaded_trajectories = 1, live_backends = [7],
         handle_inst = (\<lambda>h. if h = 2 then Some 1 else None)\<rparr>)"
    by (simp add: close_def f1 remove_loaded_trajectory_def ex_entry_simps ex_traj_def Let_def)
      (auto simp add: ex_after_def fun_eq_iff ex_entry_def numeral_2_eq_2)
  have ec: "ex_closed =
        \<lparr>loaded_trajectories =
           (\<lambda>i. if i < 2 then Some ((ex_entry 0)\<lparr>lt_key := 2\<rparr>) else None),
         num_loaded_trajectories = 1, live_backends = [7],
         handle_inst = (\<lambda>h. if h = 2 then Some 1 else None)\<rparr>"
    using cl by (simp add: ex_closed_def)
  have f2: "find_loaded_trajectory ex_closed 2 = Some (0, (ex_entry 0)\<lparr>lt_key := 2\<rparr>)"
    by (simp add: ec find_loaded_trajectory_def)
  have ld: "returned (md_trajectory_load_frame True exact_math
               (snd (set_recenter_target ex_closed 2 (Some [True]))) 2 0) =
      Some (True, Some (ex_frame 0))"
    by (simp add: set_recenter_target_def f2 Let_def)
      (simp add: ec md_trajectory_load_frame_def load_frame_def decode_frame_data_def
        ex_entry_simps ex_traj_def md_frame_cache_find_def returned_def copy_out_ex
        recenter_frame_empty md_bitfield_empty_def deperiodize_frame_off Let_def)
  have c1: "close True (ex_after 2) 1 = Inr (True, ex_closed)"
    unfolding ec by (rule cl)
  have c2: "map_option fst (find_loaded_trajectory ex_closed 2) = Some 0"
    by (simp add: f2)
  have c3: "handle_inst ex_closed 2 = Some 1"
    by (simp add: ec)
  have c4: "fst (set_recenter_target ex_closed 2 (Some [True]))"
    by (simp add: set_recenter_target_def f2 Let_def)
  have c5: "returned (md_trajectory_load_frame True exact_math
               (snd (set_recenter_target ex_closed 2 (Some [True]))) 2 0) =
      Some (True, Some ((ex_frame 0)\<lparr>frame_x := [1, 4], frame_y := [2, 5], frame_z := [3, 6]\<rparr>))"
    unfolding ld by (simp add: ex_frame_def)
  show ?thesis
    using c1 c2 c3 c4 c5 by (intro conjI)
qed

end
